theory Spec2Isabelle
  imports Main "HOL-Library.Sublist" "HOL-Library.Char_ord" "HOL-Library.List_Lexorder"
    "HOL-Library.Multiset"
begin

section \<open>Strings\<close>

text \<open>
  A Go string is a sequence of bytes; it is modelled as a \<^typ>\<open>string\<close>, a list of 8-bit
  characters. \<open>strings.TrimSpace\<close> removes the leading and the trailing runes for which
  \<open>unicode.IsSpace\<close> holds. The list \<open>space_runes\<close> gives the UTF-8 encodings of these
  runes: the six ASCII ones, U+0085, U+00A0, U+1680, U+2000 to U+200A, U+2028, U+2029,
  U+202F, U+205F and U+3000. A byte sequence that is not one of these encodings (also an
  invalid one) stops the trimming, as the decoded rune U+FFFD does in Go.
\<close>

definition space_runes :: "string list" where
  "space_runes =
     [[CHR 0x09], [CHR 0x0A], [CHR 0x0B], [CHR 0x0C], [CHR 0x0D], [CHR 0x20],
      [CHR 0xC2, CHR 0x85], [CHR 0xC2, CHR 0xA0],
      [CHR 0xE1, CHR 0x9A, CHR 0x80],
      [CHR 0xE2, CHR 0x80, CHR 0x80], [CHR 0xE2, CHR 0x80, CHR 0x81],
      [CHR 0xE2, CHR 0x80, CHR 0x82], [CHR 0xE2, CHR 0x80, CHR 0x83],
      [CHR 0xE2, CHR 0x80, CHR 0x84], [CHR 0xE2, CHR 0x80, CHR 0x85],
      [CHR 0xE2, CHR 0x80, CHR 0x86], [CHR 0xE2, CHR 0x80, CHR 0x87],
      [CHR 0xE2, CHR 0x80, CHR 0x88], [CHR 0xE2, CHR 0x80, CHR 0x89],
      [CHR 0xE2, CHR 0x80, CHR 0x8A],
      [CHR 0xE2, CHR 0x80, CHR 0xA8], [CHR 0xE2, CHR 0x80, CHR 0xA9],
      [CHR 0xE2, CHR 0x80, CHR 0xAF],
      [CHR 0xE2, CHR 0x81, CHR 0x9F],
      [CHR 0xE3, CHR 0x80, CHR 0x80]]"

text \<open>The bytes that occur in the encoding of some space rune.\<close>

definition space_bytes :: "char set" where
  "space_bytes = \<Union> (set ` set space_runes)"

text \<open>
  \<open>strip_runes ws s\<close> removes from the front of \<open>s\<close> every occurrence of one of the
  (non-empty) byte sequences \<open>ws\<close>, until none of them is a prefix of what is left.
\<close>

function strip_runes :: "string list \<Rightarrow> string \<Rightarrow> string" where
  "strip_runes ws s =
     (case find (\<lambda>w. w \<noteq> [] \<and> prefix w s) ws of
        None \<Rightarrow> s
      | Some w \<Rightarrow> strip_runes ws (drop (length w) s))"
  by pat_completeness auto
termination
proof (relation "measure (\<lambda>(ws, s). length s)")
  show "wf (measure (\<lambda>(ws, s). length s))" by simp
next
  fix ws :: "string list" and s w :: string
  assume "find (\<lambda>w. w \<noteq> [] \<and> prefix w s) ws = Some w"
  then have "w \<noteq> []" and "prefix w s"
    by (auto simp: find_Some_iff)
  then have "length w \<le> length s"
    by (auto simp: prefix_def)
  with \<open>w \<noteq> []\<close> have "length s - length w < length s"
    by (cases w) auto
  then show "((ws, drop (length w) s), (ws, s)) \<in> measure (\<lambda>(ws, s). length s)"
    by simp
qed

declare strip_runes.simps [simp del]

definition TrimLeft :: "string \<Rightarrow> string" where
  "TrimLeft s = strip_runes space_runes s"

definition TrimRight :: "string \<Rightarrow> string" where
  "TrimRight s = rev (strip_runes (map rev space_runes) (rev s))"

definition TrimSpace :: "string \<Rightarrow> string" where
  "TrimSpace s = TrimRight (TrimLeft s)"

text \<open>\<open>fmt.Sprintf("%d", n)\<close> for an integer: its decimal digits, with a sign when negative.\<close>

definition digit_char :: "nat \<Rightarrow> char" where
  "digit_char d = char_of (48 + d)"

function decimal :: "nat \<Rightarrow> string" where
  "decimal n = (if n < 10 then [digit_char n] else decimal (n div 10) @ [digit_char (n mod 10)])"
  by pat_completeness auto
termination
  by (relation "measure id") auto

declare decimal.simps [simp del]

definition sprint_int :: "int \<Rightarrow> string" where
  "sprint_int i = (if i < 0 then CHR ''-'' # decimal (nat (- i)) else decimal (nat i))"

text \<open>\<open>strings.Contains\<close>: the substring occurs somewhere.\<close>

fun Contains :: "string \<Rightarrow> string \<Rightarrow> bool" where
  "Contains [] sub = (sub = [])"
| "Contains (c # s) sub = (prefix sub (c # s) \<or> Contains s sub)"

section \<open>Data model\<close>

text \<open>Errors are opaque values carrying their message.\<close>

datatype error = Error string

text \<open>
  \<open>time.Time\<close>, as the instant it denotes: seconds since the Unix epoch and nanoseconds
  within the second.
\<close>

type_synonym gotime = "int \<times> nat"

text \<open>\<open>feed.Item\<close> (src/app/feed/releases.go), what a provider adapter returns.\<close>

record Item =
  iTitle :: string
  iLink :: string
  iGUID :: string
  iPubDate :: string
  iDescription :: string
  iCategories :: "string list"

text \<open>\<open>Item{}\<close>, the zero value, which an adapter returns for a feed without items.\<close>

definition empty_item :: Item where
  "empty_item =
     \<lparr>iTitle = [], iLink = [], iGUID = [], iPubDate = [], iDescription = [], iCategories = []\<rparr>"

text \<open>\<open>Entry\<close>, \<open>State\<close> and \<open>Site\<close> of src/app/cmd/feed.go.\<close>

record Entry =
  ID :: string
  Title :: string
  Link :: string
  Content :: string
  CreatedAt :: string
  Categories :: "string list"

record State =
  Latest :: "string \<rightharpoonup> string"

record Site =
  sTitle :: string
  sLink :: string
  sDescription :: string

text \<open>
  \<open>feedProvider\<close>: name and translate flag. Its \<open>Fetch\<close> function performs the network
  request and the XML parsing; what it returns in one poll is part of the \<open>poll\<close> record
  below.
\<close>

record feedProvider =
  Name :: string
  Translate :: bool

text \<open>
  The functions of the Go standard library that the code calls and that are pure: they
  are parameters of the model, the same in every run.
  \<^item> \<open>md5hex b\<close> is \<open>fmt.Sprintf("%x", md5.Sum(b))\<close>;
  \<^item> \<open>toLower\<close> is \<open>strings.ToLower\<close>;
  \<^item> \<open>parseRFC1123Z\<close> and \<open>parseRFC1123\<close> are \<open>time.Parse\<close> with these layouts,
    \<open>None\<close> for an error;
  \<^item> \<open>formatRFC3339 t\<close> is \<open>t.UTC().Format(time.RFC3339)\<close>.
\<close>

record golib =
  md5hex :: "string \<Rightarrow> string"
  toLower :: "string \<Rightarrow> string"
  parseRFC1123Z :: "string \<Rightarrow> gotime option"
  parseRFC1123 :: "string \<Rightarrow> gotime option"
  formatRFC3339 :: "gotime \<Rightarrow> string"

text \<open>
  What one call of \<open>addLatestFromProvider\<close> reads from outside the program:
  \<^item> \<open>fetched\<close>: the result of \<open>provider.Fetch(fetchFeed)\<close>;
  \<^item> \<open>now_id\<close>: \<open>time.Now().UnixNano()\<close> as read in \<open>pickEntryID\<close>;
  \<^item> \<open>now_hash\<close>: \<open>time.Now().UnixNano()\<close> as read in \<open>hashString\<close>;
  \<^item> \<open>now_entry\<close>: \<open>time.Now()\<close> as read in \<open>pickEntryTime\<close>;
  \<^item> \<open>translate\<close>: the answer of \<open>TransformTextByAi\<close>, the external translation service.
\<close>

record poll =
  fetched :: "error + Item"
  now_id :: int
  now_hash :: int
  now_entry :: gotime
  translate :: "string \<Rightarrow> error + string"

section \<open>Reconciliation (src/app/cmd/feed.go)\<close>

definition cleanCategories :: "string list \<Rightarrow> string list" where
  "cleanCategories values = filter (\<lambda>v. v \<noteq> []) (map TrimSpace values)"

definition hashString :: "golib \<Rightarrow> poll \<Rightarrow> string \<Rightarrow> string" where
  "hashString lib w value =
     (let v = TrimSpace value
      in if v = [] then ''hash-'' @ sprint_int (now_hash w) else md5hex lib v)"

definition pickEntryID :: "golib \<Rightarrow> poll \<Rightarrow> string \<Rightarrow> Item \<Rightarrow> string" where
  "pickEntryID lib w provider item =
     (let base = TrimSpace (iPubDate item);
          base = (if base = [] then TrimSpace (iLink item) else base);
          base = (if base = [] then provider @ ''-'' @ sprint_int (now_id w) else base)
      in hashString lib w (provider @ ''|'' @ base))"

definition parsePubDate :: "golib \<Rightarrow> string \<Rightarrow> gotime option" where
  "parsePubDate lib value =
     (let v = TrimSpace value
      in if v = [] then None
         else (case parseRFC1123Z lib v of
                 Some t \<Rightarrow> Some t
               | None \<Rightarrow> parseRFC1123 lib v))"

definition pickEntryTime :: "golib \<Rightarrow> poll \<Rightarrow> Item \<Rightarrow> string" where
  "pickEntryTime lib w item =
     (case parsePubDate lib (iPubDate item) of
        None \<Rightarrow> formatRFC3339 lib (now_entry w)
      | Some t \<Rightarrow> formatRFC3339 lib t)"

fun idExists :: "Entry list \<Rightarrow> string \<Rightarrow> bool" where
  "idExists [] i = False"
| "idExists (e # es) i = (if ID e = i then True else idExists es i)"

definition translateContent :: "golib \<Rightarrow> poll \<Rightarrow> string \<Rightarrow> bool \<Rightarrow> string" where
  "translateContent lib w text allow =
     (let t = TrimSpace text
      in if t = [] \<or> \<not> allow \<or> Contains (toLower lib t) ''<iframe'' then t
         else (case translate w t of
                 Inl err \<Rightarrow> t
               | Inr translated \<Rightarrow> translated))"

text \<open>
  \<open>addLatestFromProvider\<close> mutates the entry list and the state through pointers; the
  model returns them. The Go result \<open>(false, err)\<close> is \<open>Inl err\<close>, the result
  \<open>(created, nil)\<close> is \<open>Inr created\<close>.
\<close>

definition addLatestFromProvider ::
  "golib \<Rightarrow> poll \<Rightarrow> feedProvider \<Rightarrow> Entry list \<Rightarrow> State \<Rightarrow> (error + bool) \<times> Entry list \<times> State"
where
  "addLatestFromProvider lib w provider entries state =
     (case fetched w of
        Inl err \<Rightarrow> (Inl err, entries, state)
      | Inr item0 \<Rightarrow>
          if TrimSpace (iTitle item0) = [] then (Inr False, entries, state)
          else
            let item = item0\<lparr>iCategories := cleanCategories (iCategories item0)\<rparr>;
                i = pickEntryID lib w (Name provider) item
            in if idExists entries i
               then (Inr False, entries, state\<lparr>Latest := (Latest state)(Name provider \<mapsto> i)\<rparr>)
               else
                 let text = translateContent lib w (iDescription item) (Translate provider)
                 in (Inr True,
                     entries @ [\<lparr>ID = i, Title = iTitle item, Link = iLink item, Content = text,
                                 CreatedAt = pickEntryTime lib w item,
                                 Categories = iCategories item\<rparr>],
                     state\<lparr>Latest := (Latest state)(Name provider \<mapsto> i)\<rparr>))"

section \<open>Timestamps: \<open>time.Parse(time.RFC3339, _)\<close>\<close>

text \<open>
  \<open>parseTime\<close> trims the value and hands it to \<open>time.Parse\<close> with the layout
  \<open>"2006-01-02T15:04:05Z07:00"\<close>. The functions below follow the general parser of the Go
  library chunk by chunk (its fast path for this layout accepts a subset of the same
  strings with the same results): a year of four digits, a month and a day of two digits,
  an hour of one or two digits, minute and second of two digits, an optional fraction
  that the layout does not mention (\<open>.\<close> or \<open>,\<close> and digits), and \<open>Z\<close> or a numeric
  zone \<open>+hh:mm\<close>. Every error of the parser is \<open>None\<close>.
\<close>

definition isDigit :: "char \<Rightarrow> bool" where
  "isDigit c = (CHR ''0'' \<le> c \<and> c \<le> CHR ''9'')"

definition digit_val :: "char \<Rightarrow> nat" where
  "digit_val c = of_char c - 48"

fun getnum :: "string \<Rightarrow> bool \<Rightarrow> (nat \<times> string) option" where
  "getnum [] fixed = None"
| "getnum [c] fixed = (if \<not> isDigit c \<or> fixed then None else Some (digit_val c, []))"
| "getnum (c # d # r) fixed =
     (if \<not> isDigit c then None
      else if isDigit d then Some (digit_val c * 10 + digit_val d, r)
      else if fixed then None
      else Some (digit_val c, d # r))"

definition atoi4 :: "string \<Rightarrow> nat" where
  "atoi4 p = fold (\<lambda>c n. n * 10 + digit_val c) p 0"

definition getyear :: "string \<Rightarrow> (nat \<times> string) option" where
  "getyear v =
     (if length v < 4 \<or> \<not> list_all isDigit (take 4 v) then None
      else Some (atoi4 (take 4 v), drop 4 v))"

text \<open>\<open>skip\<close> for a layout prefix without blanks: the value must start with it.\<close>

definition skip :: "string \<Rightarrow> string \<Rightarrow> string option" where
  "skip v p = (if prefix p v then Some (drop (length p) v) else None)"

text \<open>
  The fraction after the seconds: taken when the value continues with a period or a comma
  and a digit; at most nine digits count, scaled to nanoseconds.
\<close>

definition parseFraction :: "string \<Rightarrow> nat \<times> string" where
  "parseFraction v =
     (if 2 \<le> length v \<and> (hd v = CHR ''.'' \<or> hd v = CHR '','') \<and> isDigit (v ! 1)
      then let ds = takeWhile isDigit (tl v); ns = take 9 ds
           in (atoi4 ns * 10 ^ (9 - length ns), drop (1 + length ds) v)
      else (0, v))"

text \<open>The zone: \<open>Z\<close>, or sign, two digits, a colon, two digits; the offset in seconds.\<close>

definition parseZone :: "string \<Rightarrow> (int \<times> string) option" where
  "parseZone v =
     (if 1 \<le> length v \<and> hd v = CHR ''Z'' then Some (0, tl v)
      else if length v < 6 then None
      else if v ! 3 \<noteq> CHR '':'' then None
      else (case getnum (take 2 (drop 1 v)) True of
              None \<Rightarrow> None
            | Some (hr, _) \<Rightarrow>
                (case getnum (take 2 (drop 4 v)) True of
                   None \<Rightarrow> None
                 | Some (mm, _) \<Rightarrow>
                     if 24 < hr \<or> 60 < mm then None
                     else if hd v = CHR ''+'' then Some (int ((hr * 60 + mm) * 60), drop 6 v)
                     else if hd v = CHR ''-'' then Some (- int ((hr * 60 + mm) * 60), drop 6 v)
                     else None)))"

definition isLeap :: "nat \<Rightarrow> bool" where
  "isLeap y = (y mod 4 = 0 \<and> (y mod 100 \<noteq> 0 \<or> y mod 400 = 0))"

definition daysBefore :: "nat list" where
  "daysBefore = [0, 31, 59, 90, 120, 151, 181, 212, 243, 273, 304, 334, 365]"

definition daysIn :: "nat \<Rightarrow> nat \<Rightarrow> nat" where
  "daysIn m y = (if m = 2 \<and> isLeap y then 29 else daysBefore ! m - daysBefore ! (m - 1))"

text \<open>
  \<open>time.Date(...).Unix()\<close> in UTC for fields in range: the days before the year in the
  proleptic Gregorian calendar, counted from 1970 (\<open>leapsThrough n\<close> is the number of leap
  years from year 1 to year \<open>n\<close>, 477 of them up to 1969), the days before the month, the
  leap day, the day of the month, and the time of day.
\<close>

definition leapsThrough :: "int \<Rightarrow> int" where
  "leapsThrough n = n div 4 - n div 100 + n div 400"

definition daysBeforeYear :: "nat \<Rightarrow> int" where
  "daysBeforeYear y = 365 * (int y - 1970) + leapsThrough (int y - 1) - 477"

definition unixDate :: "nat \<Rightarrow> nat \<Rightarrow> nat \<Rightarrow> nat \<Rightarrow> nat \<Rightarrow> nat \<Rightarrow> int" where
  "unixDate y m d h mi s =
     (daysBeforeYear y + int (daysBefore ! (m - 1)) + (if isLeap y \<and> 3 \<le> m then 1 else 0)
        + int (d - 1)) * 86400
     + int (h * 3600 + mi * 60 + s)"

definition parseRFC3339 :: "string \<Rightarrow> gotime option" where
  "parseRFC3339 v0 =
     Option.bind (getyear v0) (\<lambda>(year, v1).
     Option.bind (skip v1 ''-'') (\<lambda>v2.
     Option.bind (getnum v2 True) (\<lambda>(month, v3).
     if month \<le> 0 \<or> 12 < month then None else
     Option.bind (skip v3 ''-'') (\<lambda>v4.
     Option.bind (getnum v4 True) (\<lambda>(day, v5).
     Option.bind (skip v5 ''T'') (\<lambda>v6.
     Option.bind (getnum v6 False) (\<lambda>(hour, v7).
     if 24 \<le> hour then None else
     Option.bind (skip v7 '':'') (\<lambda>v8.
     Option.bind (getnum v8 True) (\<lambda>(minute, v9).
     if 60 \<le> minute then None else
     Option.bind (skip v9 '':'') (\<lambda>v10.
     Option.bind (getnum v10 True) (\<lambda>(sec, v11).
     if 60 \<le> sec then None else
     (let (nsec, v12) = parseFraction v11 in
     Option.bind (parseZone v12) (\<lambda>(offset, v13).
     if v13 \<noteq> [] then None
     else if day < 1 \<or> daysIn month year < day then None
     else Some (unixDate year month day hour minute sec - offset, nsec))))))))))))))"

definition parseTime :: "string \<Rightarrow> gotime option" where
  "parseTime v = parseRFC3339 (TrimSpace v)"

text \<open>
  The text that \<open>t.UTC().Format(time.RFC3339)\<close> produces for a year of four digits, as
  \<open>pickEntryTime\<close> writes it: \<open>2006-01-02T15:04:05Z\<close>, twenty bytes.
\<close>

definition normalized_ts :: "string \<Rightarrow> bool" where
  "normalized_ts s =
     (length s = 20
      \<and> list_all (\<lambda>i. isDigit (s ! i)) [0, 1, 2, 3, 5, 6, 8, 9, 11, 12, 14, 15, 17, 18]
      \<and> s ! 4 = CHR ''-'' \<and> s ! 7 = CHR ''-'' \<and> s ! 10 = CHR ''T''
      \<and> s ! 13 = CHR '':'' \<and> s ! 16 = CHR '':'' \<and> s ! 19 = CHR ''Z'')"

section \<open>Building the feed (src/app/cmd/feed.go)\<close>

text \<open>\<open>Item\<close> and \<open>Channel\<close> of package cmd, the content of the RSS document.\<close>

record RssItem =
  rID :: string
  rTitle :: string
  rLink :: string
  rPubDate :: string
  rDescription :: string
  rCategories :: "string list"

record Channel =
  cTitle :: string
  cLink :: string
  cDescription :: string
  LastBuildDate :: string
  Items :: "RssItem list"

text \<open>
  The library functions of the feed builder, parameters as above.
  \<^item> \<open>sortSlice lt xs\<close> is the slice after \<open>sort.Slice(xs, less)\<close>; \<open>lt\<close> is \<open>less\<close> given on
    the elements, as the closure of \<open>buildFeed\<close> compares the elements at its two indices.
    \<open>sort.Slice\<close> is not stable: all that is known is \<open>sorts_by\<close> below.
  \<^item> \<open>formatRFC1123Z t\<close> is \<open>t.UTC().Format(time.RFC1123Z)\<close>.
\<close>

record feedlib =
  sortSlice :: "(Entry \<Rightarrow> Entry \<Rightarrow> bool) \<Rightarrow> Entry list \<Rightarrow> Entry list"
  formatRFC1123Z :: "gotime \<Rightarrow> string"

definition sorts_by :: "(Entry \<Rightarrow> Entry \<Rightarrow> bool) \<Rightarrow> Entry list \<Rightarrow> Entry list \<Rightarrow> bool" where
  "sorts_by lt xs ys = (mset ys = mset xs \<and> sorted_wrt (\<lambda>a b. \<not> lt b a) ys)"

text \<open>The comparison of \<open>buildFeed\<close>: the greater timestamp text comes first.\<close>

definition createdAfter :: "Entry \<Rightarrow> Entry \<Rightarrow> bool" where
  "createdAfter a b = (CreatedAt a > CreatedAt b)"

text \<open>A sort that meets \<open>sorts_by\<close>, to run the model on concrete lists.\<close>

fun insert_by :: "(Entry \<Rightarrow> Entry \<Rightarrow> bool) \<Rightarrow> Entry \<Rightarrow> Entry list \<Rightarrow> Entry list" where
  "insert_by lt x [] = [x]"
| "insert_by lt x (y # ys) = (if lt y x then y # insert_by lt x ys else x # y # ys)"

fun insertion_sort :: "(Entry \<Rightarrow> Entry \<Rightarrow> bool) \<Rightarrow> Entry list \<Rightarrow> Entry list" where
  "insertion_sort lt [] = []"
| "insertion_sort lt (x # xs) = insert_by lt x (insertion_sort lt xs)"

definition toRssItem :: "feedlib \<Rightarrow> Entry \<Rightarrow> gotime \<Rightarrow> RssItem" where
  "toRssItem fl entry createdAt =
     \<lparr>rID = ID entry, rTitle = Title entry, rLink = Link entry,
      rPubDate = formatRFC1123Z fl createdAt, rDescription = Content entry,
      rCategories = Categories entry\<rparr>"

text \<open>The loop of \<open>buildFeed\<close> over the sorted entries.\<close>

fun feedItems :: "feedlib \<Rightarrow> Entry list \<Rightarrow> RssItem list" where
  "feedItems fl [] = []"
| "feedItems fl (entry # es) =
     (case parseTime (CreatedAt entry) of
        None \<Rightarrow> feedItems fl es
      | Some createdAt \<Rightarrow> toRssItem fl entry createdAt # feedItems fl es)"

text \<open>
  The channel that \<open>buildFeed\<close> encodes. An empty \<open>LastBuildDate\<close> is left out of the
  document (\<open>omitempty\<close>).
\<close>

definition buildChannel :: "feedlib \<Rightarrow> Site \<Rightarrow> Entry list \<Rightarrow> Channel" where
  "buildChannel fl site entries0 =
     (let entries = sortSlice fl createdAfter entries0;
          lastBuild =
            (if 0 < length entries
             then (case parseTime (CreatedAt (hd entries)) of
                     Some lastT \<Rightarrow> formatRFC1123Z fl lastT
                   | None \<Rightarrow> [])
             else [])
      in \<lparr>cTitle = sTitle site, cLink = sLink site, cDescription = sDescription site,
          LastBuildDate = lastBuild, Items = feedItems fl entries\<rparr>)"

text \<open>
  Writing the document: \<open>os.Create\<close> may fail (the file is left as it was), and the
  writes after it may fail (the file is then incomplete, \<open>None\<close>). \<open>buildFeed\<close> returns the
  error.
\<close>

datatype feed_write = FeedOk | FeedCreateFails error | FeedWriteFails error

definition buildFeed ::
  "feedlib \<Rightarrow> feed_write \<Rightarrow> Site \<Rightarrow> Entry list \<Rightarrow> Channel option \<Rightarrow> error option \<times> Channel option"
where
  "buildFeed fl fw site entries file =
     (let channel = buildChannel fl site entries
      in case fw of
           FeedCreateFails err \<Rightarrow> (Some err, file)
         | FeedWriteFails err \<Rightarrow> (Some err, None)
         | FeedOk \<Rightarrow> (None, Some channel))"

section \<open>The run (src/app/cmd/feed.go)\<close>

text \<open>
  The files of a run, each by the value that its variable holds after \<open>readJSON\<close>.
  \<open>json.Unmarshal\<close> fills the variable as it was set before: for \<open>Some v\<close> the variable
  holds \<open>v\<close> after the call (with the default title when site.json has no title, and with
  what was decoded when the file decodes only in part, since \<open>readJSON\<close> drops the error);
  for \<open>None\<close>, a file that is missing or is not JSON, the variable keeps its default.
\<close>

record disk =
  site_file :: "Site option"
  state_file :: "State option"
  entries_file :: "Entry list option"
  feed_file :: "Channel option"

text \<open>
  \<open>writeJSON\<close> ends the process with status 1 when the file cannot be created (it is left
  as it was) and when the encoder fails (the file is then incomplete).
\<close>

datatype json_write = WriteOk | CreateFails | EncodeFails

definition writeJSON :: "json_write \<Rightarrow> 'a \<Rightarrow> 'a option \<Rightarrow> bool \<times> 'a option" where
  "writeJSON jw v file =
     (case jw of
        WriteOk \<Rightarrow> (True, Some v)
      | CreateFails \<Rightarrow> (False, file)
      | EncodeFails \<Rightarrow> (False, None))"

text \<open>What a run reads from outside: the working directory, one poll for each provider
  (by its name), and how each write goes.\<close>

record run_env =
  getwd :: "error + string"
  polls :: "string \<Rightarrow> poll"
  write_state :: json_write
  write_entries :: json_write
  write_feed :: feed_write

text \<open>
  How \<open>RunFeedUpdate\<close> ends: it returns nil, it returns an error, or \<open>writeJSON\<close> ends the
  process with status 1. Of the console output the model keeps the line printed on the
  standard output; the errors printed on the standard error stream are left out.
\<close>

datatype outcome = ReturnNil | ReturnErr error | Exit1

record run_result =
  out :: outcome
  stdout :: "string list"
  disk_after :: disk

definition feedProviders :: "feedProvider list" where
  "feedProviders =
     [\<lparr>Name = ''wordpress-releases'', Translate = True\<rparr>,
      \<lparr>Name = ''wordpress-tv'', Translate = False\<rparr>,
      \<lparr>Name = ''wordpress-com'', Translate = False\<rparr>]"

text \<open>
  The loop over the providers, with the variables \<open>updated\<close>, \<open>firstErr\<close>, \<open>entries\<close> and
  \<open>state\<close> it changes.
\<close>

fun pollProviders ::
  "golib \<Rightarrow> (string \<Rightarrow> poll) \<Rightarrow> feedProvider list \<Rightarrow> bool \<times> error option \<times> Entry list \<times> State
     \<Rightarrow> bool \<times> error option \<times> Entry list \<times> State"
where
  "pollProviders lib ws [] acc = acc"
| "pollProviders lib ws (provider # ps) (updated, firstErr, entries, state) =
     (case addLatestFromProvider lib (ws (Name provider)) provider entries state of
        (Inl err, entries', state') \<Rightarrow>
          pollProviders lib ws ps
            (updated, (if firstErr = None then Some err else firstErr), entries', state')
      | (Inr added, entries', state') \<Rightarrow>
          pollProviders lib ws ps
            ((if added then True else updated), firstErr, entries', state'))"

text \<open>The results of the successive calls of \<open>addLatestFromProvider\<close> in that loop.\<close>

fun pollResults ::
  "golib \<Rightarrow> (string \<Rightarrow> poll) \<Rightarrow> feedProvider list \<Rightarrow> Entry list \<Rightarrow> State \<Rightarrow> (error + bool) list"
where
  "pollResults lib ws [] entries state = []"
| "pollResults lib ws (provider # ps) entries state =
     (case addLatestFromProvider lib (ws (Name provider)) provider entries state of
        (r, entries', state') \<Rightarrow> r # pollResults lib ws ps entries' state')"

text \<open>The first error among these results, which the loop keeps in \<open>firstErr\<close>.\<close>

fun firstError :: "(error + bool) list \<Rightarrow> error option" where
  "firstError [] = None"
| "firstError (Inl err # rs) = Some err"
| "firstError (Inr b # rs) = firstError rs"

definition defaultSite :: Site where
  "defaultSite = \<lparr>sTitle = ''Wapuugotchi RSS'', sLink = [], sDescription = []\<rparr>"

definition loadSite :: "disk \<Rightarrow> Site" where
  "loadSite d = (case site_file d of None \<Rightarrow> defaultSite | Some s \<Rightarrow> s)"

definition loadState :: "disk \<Rightarrow> State" where
  "loadState d = (case state_file d of None \<Rightarrow> \<lparr>Latest = Map.empty\<rparr> | Some s \<Rightarrow> s)"

definition loadEntries :: "disk \<Rightarrow> Entry list" where
  "loadEntries d = (case entries_file d of None \<Rightarrow> [] | Some es \<Rightarrow> es)"

definition RunFeedUpdate :: "golib \<Rightarrow> feedlib \<Rightarrow> run_env \<Rightarrow> disk \<Rightarrow> run_result" where
  "RunFeedUpdate lib fl env d =
     (case getwd env of
        Inl err \<Rightarrow> \<lparr>out = ReturnErr err, stdout = [], disk_after = d\<rparr>
      | Inr root \<Rightarrow>
          (case pollProviders lib (polls env) feedProviders
                  (False, None, loadEntries d, loadState d) of
             (updated, firstErr, entries, state) \<Rightarrow>
               if \<not> updated \<and> firstErr \<noteq> None
               then \<lparr>out = ReturnErr (the firstErr), stdout = [], disk_after = d\<rparr>
               else if \<not> updated
               then \<lparr>out = ReturnNil, stdout = [''no update detected''], disk_after = d\<rparr>
               else
                 (case writeJSON (write_state env) state (state_file d) of
                    (ok1, sf) \<Rightarrow>
                      if \<not> ok1
                      then \<lparr>out = Exit1, stdout = [], disk_after = d\<lparr>state_file := sf\<rparr>\<rparr>
                      else
                        (case writeJSON (write_entries env) entries (entries_file d) of
                           (ok2, ef) \<Rightarrow>
                             if \<not> ok2
                             then \<lparr>out = Exit1, stdout = [],
                                   disk_after = d\<lparr>state_file := sf, entries_file := ef\<rparr>\<rparr>
                             else
                               (case buildFeed fl (write_feed env) (loadSite d) entries
                                       (feed_file d) of
                                  (Some err, ff) \<Rightarrow>
                                    \<lparr>out = ReturnErr err, stdout = [],
                                     disk_after =
                                       d\<lparr>state_file := sf, entries_file := ef, feed_file := ff\<rparr>\<rparr>
                                | (None, ff) \<Rightarrow>
                                    \<lparr>out = ReturnNil, stdout = [''update detected''],
                                     disk_after =
                                       d\<lparr>state_file := sf, entries_file := ef,
                                          feed_file := ff\<rparr>\<rparr>)))))"

section \<open>Package feed: the adapters (src/unnamed/part_000)\<close>

text \<open>
  \<open>wordPressComItem\<close>, an item of the parsed feed. The network request and
  \<open>xml.Unmarshal\<close> are parameters of the adapter: \<open>fetch\<close> as in the source, and
  \<open>unmarshal body\<close> for the items of the channel that the body decodes to.
\<close>

record wordPressComItem =
  wcTitle :: string
  wcLink :: string
  wcGUID :: string
  wcPubDate :: string
  wcDescription :: string
  wcContentEncoded :: string
  wcCategories :: "string list"

definition wordpressComFeedURL :: string where
  "wordpressComFeedURL = ''https://wordpress.com/blog/feed/''"

definition LatestWordPressComBlog ::
  "(string \<Rightarrow> string \<Rightarrow> error + string) \<Rightarrow> (string \<Rightarrow> error + wordPressComItem list) \<Rightarrow> error + Item"
where
  "LatestWordPressComBlog fetch unmarshal =
     (case fetch wordpressComFeedURL ''wordpress com'' of
        Inl err \<Rightarrow> Inl err
      | Inr body \<Rightarrow>
          (case unmarshal body of
             Inl err \<Rightarrow> Inl err
           | Inr [] \<Rightarrow> Inr empty_item
           | Inr (item # _) \<Rightarrow>
               Inr \<lparr>iTitle = wcTitle item, iLink = wcLink item, iGUID = wcGUID item,
                    iPubDate = wcPubDate item, iDescription = wcDescription item,
                    iCategories = wcCategories item\<rparr>))"

definition pickEncodedOrDescription :: "string \<Rightarrow> string \<Rightarrow> string" where
  "pickEncodedOrDescription encoded description =
     (let e = TrimSpace encoded in if e \<noteq> [] then e else TrimSpace description)"

subsection \<open>Regular expressions\<close>

text \<open>
  The three patterns are package-level variables initialised by \<open>regexp.MustCompile\<close>,
  which panics when \<open>regexp.Compile\<close> returns an error. Go's regular expressions (RE2
  syntax) have no backreferences: on a backslash followed by one of the digits 1 to 7 and
  then no octal digit, the parser of regexp/syntax returns the error
  \<open>invalid escape sequence\<close>. \<open>scanEscapes\<close> is that check, from left to right, with the
  quoting between backslash-Q and backslash-E. Of the parser's checks the model keeps only this one and the
  trailing backslash: for an expression with another syntax error \<open>regexp_Compile\<close>
  answers a compiled expression where Go answers an error; none of the three patterns
  has one. A compiled expression is represented by its source text; matching with it
  (\<open>FindString\<close>, \<open>ReplaceAllString\<close>) is a parameter, \<open>relib\<close>. The value of the panic
  of \<open>MustCompile\<close> is given by the error of \<open>regexp.Compile\<close>; Go wraps it in a message that
  also quotes the expression.
\<close>

datatype panic = Panic error

datatype Regexp = Regexp string

definition backslash :: char where
  "backslash = CHR 0x5C"

fun scanEscapes :: "bool \<Rightarrow> string \<Rightarrow> string option" where
  "scanEscapes quoted [] = None"
| "scanEscapes quoted [c] =
     (if \<not> quoted \<and> c = backslash then Some ''trailing backslash at end of expression: ``'' else None)"
| "scanEscapes quoted (c # d # r) =
     (if quoted then (if c = backslash \<and> d = CHR ''E'' then scanEscapes False r
                      else scanEscapes True (d # r))
      else if c \<noteq> backslash then scanEscapes False (d # r)
      else if d = CHR ''Q'' then scanEscapes True r
      else if CHR ''1'' \<le> d \<and> d \<le> CHR ''7''
              \<and> (r = [] \<or> hd r < CHR ''0'' \<or> CHR ''7'' < hd r)
      then Some (''invalid escape sequence: `'' @ [c, d] @ ''`'')
      else scanEscapes False r)"

definition regexp_Compile :: "string \<Rightarrow> error + Regexp" where
  "regexp_Compile expr =
     (case scanEscapes False expr of
        Some msg \<Rightarrow> Inl (Error (''error parsing regexp: '' @ msg))
      | None \<Rightarrow> Inr (Regexp expr))"

definition MustCompile :: "string \<Rightarrow> panic + Regexp" where
  "MustCompile expr = (case regexp_Compile expr of Inl err \<Rightarrow> Inl (Panic err) | Inr re \<Rightarrow> Inr re)"

definition iframePattern_src :: string where
  "iframePattern_src = ''(?is)<iframe'' @ [backslash] @ ''b[^>]*>.*?</iframe>''"

definition iframeWidthPattern_src :: string where
  "iframeWidthPattern_src =
     ''(?i)'' @ [backslash] @ ''swidth'' @ [backslash] @ ''s*='' @ [backslash]
       @ ''s*(['\"]?)[^'\"'' @ [backslash] @ ''s>]*'' @ [backslash] @ ''1''"

definition iframeHeightPattern_src :: string where
  "iframeHeightPattern_src =
     ''(?i)'' @ [backslash] @ ''sheight'' @ [backslash] @ ''s*='' @ [backslash]
       @ ''s*(['\"]?)[^'\"'' @ [backslash] @ ''s>]*'' @ [backslash] @ ''1''"

text \<open>
  The package-level variables, initialised in the order of their declaration; a panic
  there ends the program before \<open>main\<close> runs. The functions of package cmd above are
  modelled as they are written, from their call on.
\<close>

record feed_vars =
  iframePattern :: Regexp
  iframeWidthPattern :: Regexp
  iframeHeightPattern :: Regexp

definition feed_init :: "panic + feed_vars" where
  "feed_init =
     (case MustCompile iframePattern_src of Inl p \<Rightarrow> Inl p | Inr r1 \<Rightarrow>
      (case MustCompile iframeWidthPattern_src of Inl p \<Rightarrow> Inl p | Inr r2 \<Rightarrow>
       (case MustCompile iframeHeightPattern_src of Inl p \<Rightarrow> Inl p | Inr r3 \<Rightarrow>
          Inr \<lparr>iframePattern = r1, iframeWidthPattern = r2, iframeHeightPattern = r3\<rparr>)))"

record relib =
  findString :: "Regexp \<Rightarrow> string \<Rightarrow> string"
  replaceAllString :: "Regexp \<Rightarrow> string \<Rightarrow> string \<Rightarrow> string"

text \<open>\<open>strings.Index\<close>: the index of the first occurrence, or -1.\<close>

fun Index :: "string \<Rightarrow> string \<Rightarrow> int" where
  "Index [] sub = (if sub = [] then 0 else - 1)"
| "Index (c # s) sub =
     (if prefix sub (c # s) then 0
      else (let i = Index s sub in if i < 0 then - 1 else i + 1))"

definition normalizeIframe :: "relib \<Rightarrow> feed_vars \<Rightarrow> string \<Rightarrow> string" where
  "normalizeIframe rl vars value =
     (if value = [] then []
      else let tagEnd = Index value ''>''
           in if tagEnd = - 1 then value
              else let openTag = take (nat tagEnd) value;
                       rest = drop (nat tagEnd) value;
                       openTag = replaceAllString rl (iframeWidthPattern vars) openTag [];
                       openTag = replaceAllString rl (iframeHeightPattern vars) openTag [];
                       openTag = TrimSpace openTag
                   in if \<not> suffix ''<iframe'' openTag \<and> \<not> Contains openTag ''<iframe''
                      then value
                      else (openTag @ '' width=\"100%\" height=\"auto\"'') @ rest)"

definition extractFirstIframe :: "relib \<Rightarrow> feed_vars \<Rightarrow> string \<Rightarrow> string" where
  "extractFirstIframe rl vars value =
     (let v = TrimSpace value
      in if v = [] then []
         else normalizeIframe rl vars (TrimSpace (findString rl (iframePattern vars) v)))"

text \<open>A call of \<open>extractFirstIframe\<close> in a program that has initialised package feed.\<close>

definition run_extractFirstIframe :: "relib \<Rightarrow> string \<Rightarrow> panic + string" where
  "run_extractFirstIframe rl value =
     (case feed_init of Inl p \<Rightarrow> Inl p | Inr vars \<Rightarrow> Inr (extractFirstIframe rl vars value))"


section \<open>Notions of the statements\<close>

text \<open>
  The calendar behind \<open>unixDate\<close>: the length of a year, the day of the year, the day
  number since the epoch, and what \<open>time.Parse\<close> accepts as a date.
\<close>

definition yearLen :: "nat \<Rightarrow> int" where
  "yearLen y = (if isLeap y then 366 else 365)"

definition dayOfYear :: "nat \<Rightarrow> nat \<Rightarrow> nat \<Rightarrow> int" where
  "dayOfYear y m d =
     int (daysBefore ! (m - 1)) + (if isLeap y \<and> 3 \<le> m then 1 else 0) + int (d - 1)"

definition monthStart :: "nat \<Rightarrow> nat \<Rightarrow> int" where
  "monthStart y m = int (daysBefore ! (m - 1)) + (if isLeap y \<and> 3 \<le> m then 1 else 0)"

definition dayNumber :: "nat \<Rightarrow> nat \<Rightarrow> nat \<Rightarrow> int" where
  "dayNumber y m d = daysBeforeYear y + dayOfYear y m d"

definition validDate :: "nat \<Rightarrow> nat \<Rightarrow> nat \<Rightarrow> bool" where
  "validDate y m d = (1 \<le> m \<and> m \<le> 12 \<and> 1 \<le> d \<and> d \<le> daysIn m y)"

text \<open>
  The fields of a normalized timestamp, read at their positions, whether they are in
  range, and the order of two timestamps field by field.
\<close>

definition num2 :: "char \<Rightarrow> char \<Rightarrow> nat" where
  "num2 a b = digit_val a * 10 + digit_val b"

definition num4 :: "char \<Rightarrow> char \<Rightarrow> char \<Rightarrow> char \<Rightarrow> nat" where
  "num4 a b c d = ((digit_val a * 10 + digit_val b) * 10 + digit_val c) * 10 + digit_val d"

definition tsY :: "string \<Rightarrow> nat" where "tsY s = num4 (s ! 0) (s ! 1) (s ! 2) (s ! 3)"
definition tsM :: "string \<Rightarrow> nat" where "tsM s = num2 (s ! 5) (s ! 6)"
definition tsD :: "string \<Rightarrow> nat" where "tsD s = num2 (s ! 8) (s ! 9)"
definition tsh :: "string \<Rightarrow> nat" where "tsh s = num2 (s ! 11) (s ! 12)"
definition tsm :: "string \<Rightarrow> nat" where "tsm s = num2 (s ! 14) (s ! 15)"
definition tss :: "string \<Rightarrow> nat" where "tss s = num2 (s ! 17) (s ! 18)"

definition tsValid :: "string \<Rightarrow> bool" where
  "tsValid s = (validDate (tsY s) (tsM s) (tsD s) \<and> tsh s < 24 \<and> tsm s < 60 \<and> tss s < 60)"

definition tsLess :: "string \<Rightarrow> string \<Rightarrow> bool" where
  "tsLess a b =
     (tsY a < tsY b \<or> tsY a = tsY b \<and> (tsM a < tsM b \<or> tsM a = tsM b \<and>
        (tsD a < tsD b \<or> tsD a = tsD b \<and> (tsh a < tsh b \<or> tsh a = tsh b \<and>
           (tsm a < tsm b \<or> tsm a = tsm b \<and> tss a < tss b)))))"

text \<open>
  \<open>itemFor fl it x\<close>: the item \<open>it\<close> of the document is the one built from the entry \<open>x\<close>,
  whose timestamp parses. \<open>notBefore a b\<close> and \<open>strictlyAfter a b\<close> compare the instants of
  the creation timestamps of two entries, both of which parse.
\<close>

definition itemFor :: "feedlib \<Rightarrow> RssItem \<Rightarrow> Entry \<Rightarrow> bool" where
  "itemFor fl it x =
     (case parseTime (CreatedAt x) of Some t \<Rightarrow> it = toRssItem fl x t | None \<Rightarrow> False)"

definition notBefore :: "Entry \<Rightarrow> Entry \<Rightarrow> bool" where
  "notBefore a b =
     (case (parseTime (CreatedAt a), parseTime (CreatedAt b)) of
        (Some ta, Some tb) \<Rightarrow> fst tb \<le> fst ta
      | _ \<Rightarrow> False)"

definition strictlyAfter :: "Entry \<Rightarrow> Entry \<Rightarrow> bool" where
  "strictlyAfter a b =
     (case (parseTime (CreatedAt a), parseTime (CreatedAt b)) of
        (Some ta, Some tb) \<Rightarrow> fst tb < fst ta
      | _ \<Rightarrow> False)"

section \<open>Concrete inputs\<close>

text \<open>
  Inputs on which the model is run below. \<open>test_lib\<close> and \<open>test_feedlib\<close> stand in for
  the library functions: on the strings and times of these inputs they answer what the Go
  library answers (the MD5 digest of
  \<open>wordpress-releases|Tue, 02 Apr 2024 17:00:00 +0000\<close>, the instant 1712077200 of that
  date), elsewhere they are arbitrary. Every general theorem below holds for any library;
  only the concrete instances use these two.
\<close>

definition test_lib :: golib where
  "test_lib =
     \<lparr>md5hex = (\<lambda>b. if b = ''wordpress-releases|Tue, 02 Apr 2024 17:00:00 +0000''
                      then ''43315ac7d16520ab32824697ced71b24'' else ''md5:'' @ b),
      toLower = (\<lambda>s. s),
      parseRFC1123Z = (\<lambda>s. if s = ''Tue, 02 Apr 2024 17:00:00 +0000''
                             then Some (1712077200, 0) else None),
      parseRFC1123 = (\<lambda>s. None),
      formatRFC3339 = (\<lambda>t. if t = (1712077200, 0) then ''2024-04-02T17:00:00Z''
                             else ''1970-01-01T00:00:00Z'')\<rparr>"

definition release_item :: Item where
  "release_item =
     \<lparr>iTitle = ''WordPress 6.5'', iLink = ''https://wordpress.org/news/2024/04/regina/'',
      iGUID = [], iPubDate = ''Tue, 02 Apr 2024 17:00:00 +0000'',
      iDescription = ''Say hello'', iCategories = [''Releases'', '' '']\<rparr>"

definition blank_item :: Item where
  "blank_item =
     \<lparr>iTitle = ''  '', iLink = ''https://wordpress.org/news/2024/04/regina/'',
      iGUID = [], iPubDate = ''Tue, 02 Apr 2024 17:00:00 +0000'',
      iDescription = ''Say hello'', iCategories = []\<rparr>"

definition poll_of :: "error + Item \<Rightarrow> poll" where
  "poll_of r =
     \<lparr>fetched = r, now_id = 1712077200000000001, now_hash = 1712077200000000002,
      now_entry = (1712077200, 0), translate = (\<lambda>t. Inl (Error ''translation failed''))\<rparr>"

definition test_feedlib :: feedlib where
  "test_feedlib =
     \<lparr>sortSlice = insertion_sort,
      formatRFC1123Z = (\<lambda>t. if t = (1712077200, 0) then ''Tue, 02 Apr 2024 17:00:00 +0000''
                              else if t = (1709631000, 0) then ''Tue, 05 Mar 2024 09:30:00 +0000''
                              else if t = (1699380000, 0) then ''Tue, 07 Nov 2023 18:00:00 +0000''
                              else ''Thu, 01 Jan 1970 00:00:00 +0000'')\<rparr>"

definition empty_disk :: disk where
  "empty_disk = \<lparr>site_file = None, state_file = None, entries_file = None, feed_file = None\<rparr>"

text \<open>A run in which the first provider's fetch fails and the other two feeds have no item.\<close>

definition env_one_error :: run_env where
  "env_one_error =
     \<lparr>getwd = Inr ''/srv/feed'',
      polls = (\<lambda>n. if n = ''wordpress-releases''
                    then poll_of (Inl (Error ''wordpress releases api status: 503''))
                    else poll_of (Inr empty_item)),
      write_state = WriteOk, write_entries = WriteOk, write_feed = FeedOk\<rparr>"

text \<open>A run in which every fetch succeeds and no feed has an item.\<close>

definition env_no_items :: run_env where
  "env_no_items =
     \<lparr>getwd = Inr ''/srv/feed'', polls = (\<lambda>n. poll_of (Inr empty_item)),
      write_state = WriteOk, write_entries = WriteOk, write_feed = FeedOk\<rparr>"

text \<open>A run in which the first provider has a new item and the second one's fetch fails.\<close>

definition env_new_release :: run_env where
  "env_new_release =
     \<lparr>getwd = Inr ''/srv/feed'',
      polls = (\<lambda>n. if n = ''wordpress-releases'' then poll_of (Inr release_item)
                    else if n = ''wordpress-tv''
                    then poll_of (Inl (Error ''wordpress tv api status: 503''))
                    else poll_of (Inr empty_item)),
      write_state = WriteOk, write_entries = WriteOk, write_feed = FeedOk\<rparr>"

definition release_entry :: Entry where
  "release_entry =
     \<lparr>ID = ''43315ac7d16520ab32824697ced71b24'', Title = ''WordPress 6.5'',
      Link = ''https://wordpress.org/news/2024/04/regina/'', Content = ''Say hello'',
      CreatedAt = ''2024-04-02T17:00:00Z'', Categories = [''Releases'']\<rparr>"

definition bad_entry :: Entry where
  "bad_entry =
     \<lparr>ID = ''legacy-1'', Title = ''Imported by hand'', Link = ''https://example.org/post'',
      Content = ''Hello'', CreatedAt = ''yesterday'', Categories = []\<rparr>"

definition disk_bad_entry :: disk where
  "disk_bad_entry =
     \<lparr>site_file = None, state_file = None, entries_file = Some [bad_entry], feed_file = None\<rparr>"

definition com_feed_item :: wordPressComItem where
  "com_feed_item =
     \<lparr>wcTitle = ''A new post'', wcLink = ''https://wordpress.com/blog/2024/04/02/a-new-post/'',
      wcGUID = ''https://wordpress.com/blog/?p=1'', wcPubDate = ''Tue, 02 Apr 2024 17:00:00 +0000'',
      wcDescription = ''Short summary'', wcContentEncoded = ''<p>The full body</p>'',
      wcCategories = []\<rparr>"

definition march_entry :: Entry where
  "march_entry =
     \<lparr>ID = ''0f8f10c5b8a38c2649f5080274b0cdc9'', Title = ''A post in March'',
      Link = ''https://wordpress.com/blog/2024/03/05/march/'', Content = ''March'',
      CreatedAt = ''2024-03-05T09:30:00Z'', Categories = []\<rparr>"

definition november_entry :: Entry where
  "november_entry =
     \<lparr>ID = ''d169b9b61c7b9a103c4d8b2e49e1afbd'', Title = ''A talk in November'',
      Link = ''https://wordpress.tv/2023/11/07/talk/'', Content = ''<iframe></iframe>'',
      CreatedAt = ''2023-11-07T18:00:00Z'', Categories = [''WordCamp'']\<rparr>"

definition twin_entry :: Entry where
  "twin_entry =
     \<lparr>ID = ''31e096f394cdefc5af8212839b186e63'', Title = ''A talk in April'',
      Link = ''https://wordpress.tv/2024/04/02/talk/'', Content = ''<iframe></iframe>'',
      CreatedAt = ''2024-04-02T17:00:00Z'', Categories = []\<rparr>"

text \<open>A state in which another provider has its marker.\<close>

definition tv_marker_state :: State where
  "tv_marker_state = \<lparr>Latest = [''wordpress-tv'' \<mapsto> ''31e096f394cdefc5af8212839b186e63'']\<rparr>"

definition releases :: feedProvider where
  "releases = \<lparr>Name = ''wordpress-releases'', Translate = True\<rparr>"

section \<open>Facts about the strings\<close>

lemma strip_runes_keeps:
  "set s \<subseteq> set (strip_runes ws s) \<union> \<Union> (set ` set ws)"
proof (induction ws s rule: strip_runes.induct)
  case (1 ws s)
  show ?case
  proof (cases "find (\<lambda>w. w \<noteq> [] \<and> prefix w s) ws")
    case None
    then show ?thesis by (simp add: strip_runes.simps [of ws s])
  next
    case (Some w)
    then have w: "w \<in> set ws" "prefix w s"
      by (auto simp: find_Some_iff)
    then obtain r where r: "s = w @ r"
      by (auto simp: prefix_def)
    have "set r \<subseteq> set (strip_runes ws r) \<union> \<Union> (set ` set ws)"
      using "1.IH" [OF Some] r by simp
    moreover have "strip_runes ws s = strip_runes ws (drop (length w) s)"
      using Some by (simp add: strip_runes.simps [of ws s])
    then have "strip_runes ws s = strip_runes ws r"
      using r by simp
    moreover have "set w \<subseteq> \<Union> (set ` set ws)"
      using w by auto
    ultimately show ?thesis
      using r by auto
  qed
qed

lemma TrimLeft_keeps: "set s \<subseteq> set (TrimLeft s) \<union> space_bytes"
  unfolding TrimLeft_def space_bytes_def by (rule strip_runes_keeps)

lemma TrimRight_keeps: "set s \<subseteq> set (TrimRight s) \<union> space_bytes"
proof -
  have "set (rev s) \<subseteq> set (strip_runes (map rev space_runes) (rev s))
          \<union> \<Union> (set ` set (map rev space_runes))"
    by (rule strip_runes_keeps)
  moreover have "\<Union> (set ` set (map rev space_runes)) = space_bytes"
    by (auto simp: space_bytes_def)
  ultimately show ?thesis
    by (simp add: TrimRight_def)
qed

lemma TrimSpace_keeps: "set s \<subseteq> set (TrimSpace s) \<union> space_bytes"
  using TrimLeft_keeps [of s] TrimRight_keeps [of "TrimLeft s"]
  by (auto simp: TrimSpace_def)

lemma bar_not_space: "CHR ''|'' \<notin> space_bytes"
  by (simp add: space_bytes_def space_runes_def)

lemma TrimSpace_bar: "TrimSpace (p @ CHR ''|'' # b) \<noteq> []"
proof
  assume "TrimSpace (p @ CHR ''|'' # b) = []"
  with TrimSpace_keeps [of "p @ CHR ''|'' # b"] have "CHR ''|'' \<in> space_bytes"
    by auto
  with bar_not_space show False by simp
qed

section \<open>Reconciliation: identities, idempotence, the state\<close>

lemma idExists_iff: "idExists es i \<longleftrightarrow> i \<in> ID ` set es"
  by (induction es) auto

lemma pickEntryID_categories:
  "pickEntryID lib w p (item\<lparr>iCategories := c\<rparr>) = pickEntryID lib w p item"
  by (simp add: pickEntryID_def Let_def)

lemma hashString_bar:
  "hashString lib w (p @ CHR ''|'' # b) = md5hex lib (TrimSpace (p @ CHR ''|'' # b))"
  using TrimSpace_bar [of p b] by (simp add: hashString_def Let_def)

text \<open>With a publish date or a link, the identity does not read the clock.\<close>

lemma pickEntryID_stable:
  assumes "TrimSpace (iPubDate item) \<noteq> [] \<or> TrimSpace (iLink item) \<noteq> []"
  shows "pickEntryID lib w1 p item = pickEntryID lib w2 p item"
  using assms by (auto simp: pickEntryID_def Let_def hashString_bar)

lemma release_item_title: "TrimSpace (iTitle release_item) \<noteq> []"
  by code_simp

lemma release_item_pubdate: "TrimSpace (iPubDate release_item) \<noteq> []"
  by code_simp

lemma blank_item_title: "TrimSpace (iTitle blank_item) = []"
  by code_simp

text \<open>The reconciliation of the release item, into lists with and without it.\<close>

lemma release_item_trim:
  "TrimSpace (iTitle release_item) = ''WordPress 6.5''"
  "TrimSpace (iPubDate release_item) = ''Tue, 02 Apr 2024 17:00:00 +0000''"
  "TrimSpace (iDescription release_item) = ''Say hello''"
  "cleanCategories (iCategories release_item) = [''Releases'']"
  "TrimSpace ''wordpress-releases|Tue, 02 Apr 2024 17:00:00 +0000''
     = ''wordpress-releases|Tue, 02 Apr 2024 17:00:00 +0000''"
  by code_simp+

lemma add_release:
  "addLatestFromProvider test_lib (poll_of (Inr release_item)) \<lparr>Name = ''wordpress-releases'', Translate = True\<rparr>
     [] \<lparr>Latest = Map.empty\<rparr>
   = (Inr True, [release_entry],
      \<lparr>Latest = [''wordpress-releases'' \<mapsto> ''43315ac7d16520ab32824697ced71b24'']\<rparr>)"
  by (simp add: addLatestFromProvider_def poll_of_def release_item_trim Let_def pickEntryID_def
      hashString_def test_lib_def translateContent_def pickEntryTime_def parsePubDate_def
      release_entry_def)
    (simp add: release_item_def)

lemma add_release_after_bad:
  "addLatestFromProvider test_lib (poll_of (Inr release_item)) \<lparr>Name = ''wordpress-releases'', Translate = True\<rparr>
     [bad_entry] \<lparr>Latest = Map.empty\<rparr>
   = (Inr True, [bad_entry, release_entry],
      \<lparr>Latest = [''wordpress-releases'' \<mapsto> ''43315ac7d16520ab32824697ced71b24'']\<rparr>)"
  by (simp add: addLatestFromProvider_def poll_of_def release_item_trim Let_def pickEntryID_def
      hashString_def test_lib_def translateContent_def pickEntryTime_def parsePubDate_def
      release_entry_def bad_entry_def)
    (simp add: release_item_def)

lemma add_release_duplicate:
  "addLatestFromProvider test_lib (poll_of (Inr release_item)) releases
     [bad_entry, release_entry] tv_marker_state
   = (Inr False, [bad_entry, release_entry],
      \<lparr>Latest = [''wordpress-tv'' \<mapsto> ''31e096f394cdefc5af8212839b186e63'',
                  ''wordpress-releases'' \<mapsto> ''43315ac7d16520ab32824697ced71b24'']\<rparr>)"
  by (simp add: addLatestFromProvider_def poll_of_def release_item_trim Let_def pickEntryID_def
      hashString_def test_lib_def releases_def tv_marker_state_def release_entry_def bad_entry_def)

lemma release_id:
  "pickEntryID test_lib (poll_of (Inr release_item)) (Name releases) release_item
     = ''43315ac7d16520ab32824697ced71b24''"
  by (simp add: pickEntryID_def release_item_trim Let_def hashString_def test_lib_def releases_def)

text \<open>
  Claim C1. A provider's item has a title and a publish date or a link that are not blank.
  After one reconciliation of this item, a second one against the resulting entry list
  and state, with the identical item (whatever the clock and the translation service
  answer then), returns created = false and leaves the entry list and the state as they
  were; the state holds the item's identity for the provider.
\<close>

theorem reconcile_idempotent:
  assumes "fetched w1 = Inr item" and "fetched w2 = Inr item"
    and "TrimSpace (iTitle item) \<noteq> []"
    and "TrimSpace (iPubDate item) \<noteq> [] \<or> TrimSpace (iLink item) \<noteq> []"
    and "addLatestFromProvider lib w1 provider entries state = (r1, entries1, state1)"
  shows "addLatestFromProvider lib w2 provider entries1 state1 = (Inr False, entries1, state1)
         \<and> Latest state1 (Name provider) = Some (pickEntryID lib w2 (Name provider) item)"
proof -
  let ?i = "pickEntryID lib w1 (Name provider) item"
  have same: "pickEntryID lib w2 (Name provider) item = ?i"
    using assms(4) pickEntryID_stable by metis
  have ex: "idExists entries1 ?i" and st: "Latest state1 (Name provider) = Some ?i"
    using assms(1,3,5)
    by (auto simp: addLatestFromProvider_def Let_def idExists_iff pickEntryID_categories
        split: if_splits)
  have "state1\<lparr>Latest := (Latest state1)(Name provider \<mapsto> ?i)\<rparr> = state1"
    using st by (simp add: fun_upd_idem)
  then show ?thesis
    using assms(2,3) ex st same
    by (simp add: addLatestFromProvider_def Let_def pickEntryID_categories)
qed

theorem reconcile_idempotent_witness:
  "addLatestFromProvider test_lib (poll_of (Inr release_item)) releases
     (fst (snd (addLatestFromProvider test_lib (poll_of (Inr release_item)) releases []
                  \<lparr>Latest = Map.empty\<rparr>)))
     (snd (snd (addLatestFromProvider test_lib (poll_of (Inr release_item)) releases []
                  \<lparr>Latest = Map.empty\<rparr>)))
   = (Inr False,
      fst (snd (addLatestFromProvider test_lib (poll_of (Inr release_item)) releases []
                  \<lparr>Latest = Map.empty\<rparr>)),
      snd (snd (addLatestFromProvider test_lib (poll_of (Inr release_item)) releases []
                  \<lparr>Latest = Map.empty\<rparr>)))"
proof -
  let ?X = "addLatestFromProvider test_lib (poll_of (Inr release_item)) releases []
              \<lparr>Latest = Map.empty\<rparr>"
  have f: "fetched (poll_of (Inr release_item)) = Inr release_item"
    by (simp add: poll_of_def)
  have d: "TrimSpace (iPubDate release_item) \<noteq> [] \<or> TrimSpace (iLink release_item) \<noteq> []"
    using release_item_pubdate by simp
  have e: "?X = (fst ?X, fst (snd ?X), snd (snd ?X))"
    by simp
  show ?thesis
    using reconcile_idempotent [OF f f release_item_title d e]
    by simp
qed

text \<open>
  Claim C3. When the identities of the entry list are pairwise distinct, they are still
  pairwise distinct after the reconciliation of any provider's poll, and the list before
  is a prefix of the list after: every entry is still there, at its place, with all its
  fields; entries are only appended.
\<close>

theorem reconcile_keeps_ids_distinct:
  assumes "distinct (map ID entries)"
    and "addLatestFromProvider lib w provider entries state = (r, entries', state')"
  shows "distinct (map ID entries') \<and> prefix entries entries'"
  using assms
  by (auto simp: addLatestFromProvider_def Let_def idExists_iff
      split: sum.splits if_splits)

theorem reconcile_keeps_ids_distinct_witness:
  "distinct (map ID [bad_entry])
   \<and> addLatestFromProvider test_lib (poll_of (Inr release_item)) releases [bad_entry]
         \<lparr>Latest = Map.empty\<rparr>
       = (Inr True, [bad_entry, release_entry],
          \<lparr>Latest = [''wordpress-releases'' \<mapsto> ''43315ac7d16520ab32824697ced71b24'']\<rparr>)
   \<and> distinct (map ID [bad_entry, release_entry])
   \<and> prefix [bad_entry] [bad_entry, release_entry]
   \<and> addLatestFromProvider test_lib (poll_of (Inr release_item)) releases
         [bad_entry, release_entry] tv_marker_state
       = (Inr False, [bad_entry, release_entry],
          \<lparr>Latest = [''wordpress-tv'' \<mapsto> ''31e096f394cdefc5af8212839b186e63'',
                      ''wordpress-releases'' \<mapsto> ''43315ac7d16520ab32824697ced71b24'']\<rparr>)
   \<and> prefix [bad_entry, release_entry] [bad_entry, release_entry]"
proof -
  have d: "distinct (map ID [bad_entry])"
    by simp
  have e: "addLatestFromProvider test_lib (poll_of (Inr release_item)) releases [bad_entry]
         \<lparr>Latest = Map.empty\<rparr>
       = (Inr True, [bad_entry, release_entry],
          \<lparr>Latest = [''wordpress-releases'' \<mapsto> ''43315ac7d16520ab32824697ced71b24'']\<rparr>)"
    using add_release_after_bad by (simp add: releases_def)
  have first: "distinct (map ID [bad_entry, release_entry])
                 \<and> prefix [bad_entry] [bad_entry, release_entry]"
    by (rule reconcile_keeps_ids_distinct [OF d e])
  then have d2: "distinct (map ID [bad_entry, release_entry])" ..
  have second: "distinct (map ID [bad_entry, release_entry])
                  \<and> prefix [bad_entry, release_entry] [bad_entry, release_entry]"
    by (rule reconcile_keeps_ids_distinct [OF d2 add_release_duplicate])
  from d e first second add_release_duplicate show ?thesis
    by blast
qed

text \<open>
  Claim C4, as amended. A poll whose fetch succeeds with an item whose title is not blank
  sets state[provider] to the identity computed for the item and leaves the other
  providers' markers alone, whether or not an entry is created; when the identity is
  already in the entry list, created is false and the entry list is unchanged. A poll
  whose fetch succeeds with an item whose title is blank returns created = false and
  leaves the entry list and the whole state as they were.
\<close>

theorem poll_state_by_title:
  assumes "fetched w = Inr item"
    and "addLatestFromProvider lib w provider entries state = (r, entries', state')"
  shows "(TrimSpace (iTitle item) \<noteq> [] \<longrightarrow>
            Latest state'
              = (Latest state)(Name provider \<mapsto> pickEntryID lib w (Name provider) item)
            \<and> (idExists entries (pickEntryID lib w (Name provider) item)
                 \<longrightarrow> r = Inr False \<and> entries' = entries))
         \<and> (TrimSpace (iTitle item) = [] \<longrightarrow>
            r = Inr False \<and> entries' = entries \<and> state' = state)"
  using assms
  by (auto simp: addLatestFromProvider_def Let_def pickEntryID_categories split: if_splits)

theorem poll_state_by_title_witness:
  "TrimSpace (iTitle release_item) \<noteq> []
   \<and> idExists [bad_entry, release_entry]
        (pickEntryID test_lib (poll_of (Inr release_item)) (Name releases) release_item)
   \<and> addLatestFromProvider test_lib (poll_of (Inr release_item)) releases
         [bad_entry, release_entry] tv_marker_state
       = (Inr False, [bad_entry, release_entry],
          \<lparr>Latest = (Latest tv_marker_state)
             (Name releases \<mapsto>
                pickEntryID test_lib (poll_of (Inr release_item)) (Name releases) release_item)\<rparr>)
   \<and> TrimSpace (iTitle blank_item) = []
   \<and> addLatestFromProvider test_lib (poll_of (Inr blank_item)) releases
         [bad_entry, release_entry] tv_marker_state
       = (Inr False, [bad_entry, release_entry], tv_marker_state)"
proof -
  have f: "fetched (poll_of (Inr release_item)) = Inr release_item"
    by (simp add: poll_of_def)
  have i: "idExists [bad_entry, release_entry]
        (pickEntryID test_lib (poll_of (Inr release_item)) (Name releases) release_item)"
    by (simp add: release_id release_entry_def)
  let ?X = "addLatestFromProvider test_lib (poll_of (Inr release_item)) releases
         [bad_entry, release_entry] tv_marker_state"
  have e: "?X = (fst ?X, fst (snd ?X), snd (snd ?X))"
    by simp
  from poll_state_by_title [OF f e] release_item_title i
  have "fst ?X = Inr False" and "fst (snd ?X) = [bad_entry, release_entry]"
    and "Latest (snd (snd ?X))
           = (Latest tv_marker_state)
               (Name releases \<mapsto>
                  pickEntryID test_lib (poll_of (Inr release_item)) (Name releases) release_item)"
    by blast+
  then have titled: "?X = (Inr False, [bad_entry, release_entry],
          \<lparr>Latest = (Latest tv_marker_state)
             (Name releases \<mapsto>
                pickEntryID test_lib (poll_of (Inr release_item)) (Name releases) release_item)\<rparr>)"
    by (cases ?X) auto
  have g: "fetched (poll_of (Inr blank_item)) = Inr blank_item"
    by (simp add: poll_of_def)
  let ?Y = "addLatestFromProvider test_lib (poll_of (Inr blank_item)) releases
         [bad_entry, release_entry] tv_marker_state"
  have e': "?Y = (fst ?Y, fst (snd ?Y), snd (snd ?Y))"
    by simp
  from poll_state_by_title [OF g e'] blank_item_title
  have "fst ?Y = Inr False" and "fst (snd ?Y) = [bad_entry, release_entry]"
    and "snd (snd ?Y) = tv_marker_state"
    by blast+
  then have blank: "?Y = (Inr False, [bad_entry, release_entry], tv_marker_state)"
    by (cases ?Y) auto
  from release_item_title i titled blank_item_title blank show ?thesis
    by blast
qed

text \<open>
  Claim C4 as stated fails: the fetch succeeds with an item whose title is blank, and the
  poll returns without touching the state, so state[provider] is not the item's identity.
\<close>

theorem poll_blank_title_counterexample:
  "fetched (poll_of (Inr blank_item)) = Inr blank_item
   \<and> addLatestFromProvider test_lib (poll_of (Inr blank_item)) releases [] \<lparr>Latest = Map.empty\<rparr>
       = (Inr False, [], \<lparr>Latest = Map.empty\<rparr>)
   \<and> Latest (snd (snd (addLatestFromProvider test_lib (poll_of (Inr blank_item)) releases []
                          \<lparr>Latest = Map.empty\<rparr>))) (Name releases)
       \<noteq> Some (pickEntryID test_lib (poll_of (Inr blank_item)) (Name releases) blank_item)"
  by (simp add: addLatestFromProvider_def poll_of_def blank_item_title)

section \<open>The calendar: later dates have greater day numbers\<close>

lemma div_step:
  fixes n k :: int
  assumes "0 < k"
  shows "n div k - (n - 1) div k = (if n mod k = 0 then 1 else 0)"
proof (cases "n mod k = 0")
  case True
  then have "k * (n div k) = n"
    by (simp add: dvd_eq_mod_eq_0 [symmetric])
  then have "n - 1 = k * (n div k - 1) + (k - 1)"
    by (simp add: algebra_simps)
  then have "(n - 1) div k = n div k - 1"
    using assms int_div_pos_eq [of "n - 1" k "n div k - 1" "k - 1"] by simp
  with True show ?thesis by simp
next
  case False
  have "0 \<le> n mod k" "n mod k < k"
    using assms by simp_all
  with False have r: "0 \<le> n mod k - 1" "n mod k - 1 < k"
    by simp_all
  have "n - 1 = k * (n div k) + (n mod k - 1)"
    by simp
  then have "(n - 1) div k = n div k"
    using r int_div_pos_eq [of "n - 1" k "n div k" "n mod k - 1"] by simp
  with False show ?thesis by simp
qed


lemma mod_100_4: "(n::int) mod 100 = 0 \<Longrightarrow> n mod 4 = 0"
  unfolding mod_eq_0_iff_dvd by (erule dvd_trans [rotated]) simp

lemma mod_400_100: "(n::int) mod 400 = 0 \<Longrightarrow> n mod 100 = 0"
  unfolding mod_eq_0_iff_dvd by (erule dvd_trans [rotated]) simp


lemma indicator_sum:
  fixes a b c :: int
  assumes "a = (if p then 1 else 0)" and "b = (if q then 1 else 0)" and "c = (if r then 1 else 0)"
    and "q \<Longrightarrow> p" and "r \<Longrightarrow> q"
  shows "a - b + c = (if p \<and> (\<not> q \<or> r) then 1 else 0)"
  using assms by (cases p; cases q; cases r; simp)

lemma rearrange:
  fixes x4 x100 x400 y4 y100 y400 :: int
  shows "(x4 - x100 + x400) - (y4 - y100 + y400) = (x4 - y4) - (x100 - y100) + (x400 - y400)"
  by simp

lemma leaps_step:
  "leapsThrough n - leapsThrough (n - 1)
     = (if n mod 4 = 0 \<and> (n mod 100 \<noteq> 0 \<or> n mod 400 = 0) then 1 else 0)"
proof -
  have a: "n div 4 - (n - 1) div 4 = (if n mod 4 = 0 then 1 else 0)"
    by (rule div_step) simp
  have b: "n div 100 - (n - 1) div 100 = (if n mod 100 = 0 then 1 else 0)"
    by (rule div_step) simp
  have c: "n div 400 - (n - 1) div 400 = (if n mod 400 = 0 then 1 else 0)"
    by (rule div_step) simp
  have "leapsThrough n - leapsThrough (n - 1)
          = (n div 4 - (n - 1) div 4) - (n div 100 - (n - 1) div 100)
            + (n div 400 - (n - 1) div 400)"
    unfolding leapsThrough_def by (rule rearrange)
  also have "\<dots> = (if n mod 4 = 0 \<and> (\<not> n mod 100 = 0 \<or> n mod 400 = 0) then 1 else 0)"
    by (rule indicator_sum [OF a b c mod_100_4 mod_400_100])
  finally show ?thesis .
qed

lemma int_mod_0: "(int y mod int k = 0) = (y mod k = 0)"
proof -
  have "int y mod int k = int (y mod k)"
    by (simp add: zmod_int)
  then show ?thesis
    by simp
qed

lemma isLeap_int: "isLeap y \<longleftrightarrow> int y mod 4 = 0 \<and> (int y mod 100 \<noteq> 0 \<or> int y mod 400 = 0)"
proof -
  have a: "(int y mod 4 = 0) = (y mod 4 = 0)"
    using int_mod_0 [of y 4] by (simp only: of_nat_numeral)
  have b: "(int y mod 100 = 0) = (y mod 100 = 0)"
    using int_mod_0 [of y 100] by (simp only: of_nat_numeral)
  have c: "(int y mod 400 = 0) = (y mod 400 = 0)"
    using int_mod_0 [of y 400] by (simp only: of_nat_numeral)
  show ?thesis
    unfolding isLeap_def a b c by (rule refl)
qed

lemma leaps_Suc: "leapsThrough (int y) = leapsThrough (int y - 1) + (if isLeap y then 1 else 0)"
proof -
  have "leapsThrough (int y) - leapsThrough (int y - 1) = (if isLeap y then 1 else 0)"
    unfolding isLeap_int by (rule leaps_step)
  then show ?thesis
    by (simp only: algebra_simps)
qed

lemma daysBeforeYear_Suc: "daysBeforeYear (Suc y) = daysBeforeYear y + yearLen y"
  using leaps_Suc [of y]
  by (simp add: daysBeforeYear_def yearLen_def)

lemma yearLen_pos: "0 < yearLen y"
  by (simp add: yearLen_def)

lemma daysBeforeYear_mono: "y < y' \<Longrightarrow> daysBeforeYear y + yearLen y \<le> daysBeforeYear y'"
proof (induction y')
  case 0
  then show ?case by simp
next
  case (Suc k)
  show ?case
  proof (cases "y = k")
    case True
    then show ?thesis by (simp add: daysBeforeYear_Suc)
  next
    case False
    with Suc.prems have "y < k" by simp
    from Suc.IH [OF this] yearLen_pos [of k] show ?thesis
      by (simp add: daysBeforeYear_Suc)
  qed
qed

lemma month_cases:
  assumes "1 \<le> m" and "m \<le> 12"
  shows "m = 1 \<or> m = 2 \<or> m = 3 \<or> m = 4 \<or> m = 5 \<or> m = 6 \<or> m = 7 \<or> m = 8 \<or> m = 9
         \<or> m = 10 \<or> m = 11 \<or> m = (12::nat)"
  using assms by arith

lemma monthStart_next:
  assumes "1 \<le> m" and "m \<le> 12"
  shows "monthStart y m + int (daysIn m y) = (if m = 12 then yearLen y else monthStart y (Suc m))"
  using month_cases [OF assms]
  by (auto simp: monthStart_def daysIn_def daysBefore_def yearLen_def)

lemma monthStart_mono:
  assumes "1 \<le> m" and "m < m'" and "m' \<le> 12"
  shows "monthStart y m + int (daysIn m y) \<le> monthStart y m'"
  using assms
proof (induction m')
  case 0
  then show ?case by simp
next
  case (Suc k)
  show ?case
  proof (cases "m = k")
    case True
    with Suc.prems monthStart_next [of k y] show ?thesis by simp
  next
    case False
    with Suc.prems have lt: "m < k" and k: "1 \<le> k" "k \<le> 12" by simp_all
    have "monthStart y k \<le> monthStart y (Suc k)"
      using monthStart_next [OF k, of y] Suc.prems by simp
    with Suc.IH [OF Suc.prems(1) lt] k show ?thesis by simp
  qed
qed

lemma monthStart_end:
  assumes "1 \<le> m" and "m \<le> 12"
  shows "monthStart y m + int (daysIn m y) \<le> yearLen y"
proof (cases "m = 12")
  case True
  then show ?thesis using monthStart_next [OF assms, of y] by simp
next
  case False
  with assms have "m < 12" by simp
  from monthStart_mono [OF assms(1) this, of y] monthStart_next [of 12 y]
  show ?thesis by simp
qed


lemma dayOfYear_eq: "dayOfYear y m d = monthStart y m + int (d - 1)"
  by (simp add: dayOfYear_def monthStart_def)

text \<open>A valid date: month 1 to 12, day 1 to the length of the month.\<close>

lemma dayOfYear_bounds:
  assumes "1 \<le> m" and "m \<le> 12" and "1 \<le> d" and "d \<le> daysIn m y"
  shows "0 \<le> dayOfYear y m d" and "dayOfYear y m d < yearLen y"
proof -
  show "0 \<le> dayOfYear y m d"
    by (simp add: dayOfYear_def)
  have "monthStart y m + int (d - 1) < monthStart y m + int (daysIn m y)"
    using assms(3,4) by simp
  with monthStart_end [OF assms(1,2), of y] show "dayOfYear y m d < yearLen y"
    by (simp add: dayOfYear_eq)
qed

lemma dayOfYear_mono_month:
  assumes "1 \<le> m" and "m < m'" and "m' \<le> 12" and "1 \<le> d" and "d \<le> daysIn m y"
  shows "dayOfYear y m d < dayOfYear y m' d'"
proof -
  have "monthStart y m + int (d - 1) < monthStart y m + int (daysIn m y)"
    using assms(4,5) by simp
  with monthStart_mono [OF assms(1,2,3), of y] show ?thesis
    by (simp add: dayOfYear_eq)
qed

lemma dayOfYear_mono_day:
  assumes "1 \<le> d" and "d < d'"
  shows "dayOfYear y m d < dayOfYear y m d'"
  using assms by (simp add: dayOfYear_eq)

lemma dayNumber_mono:
  assumes "validDate y m d" and "validDate y' m' d'"
    and "y < y' \<or> y = y' \<and> (m < m' \<or> m = m' \<and> d < d')"
  shows "dayNumber y m d < dayNumber y' m' d'"
proof -
  from assms(3) consider "y < y'" | "y = y'" "m < m'" | "y = y'" "m = m'" "d < d'"
    by blast
  then show ?thesis
  proof cases
    case 1
    have "dayOfYear y m d < yearLen y"
      using assms(1) by (intro dayOfYear_bounds) (simp_all add: validDate_def)
    moreover have "0 \<le> dayOfYear y' m' d'"
      using assms(2) by (intro dayOfYear_bounds) (simp_all add: validDate_def)
    ultimately show ?thesis
      using daysBeforeYear_mono [OF 1] by (simp add: dayNumber_def)
  next
    case 2
    have "dayOfYear y m d < dayOfYear y m' d'"
      using assms(1,2) 2 by (intro dayOfYear_mono_month) (simp_all add: validDate_def)
    with 2 show ?thesis by (simp add: dayNumber_def)
  next
    case 3
    have "dayOfYear y m d < dayOfYear y m d'"
      using assms(1) 3 by (intro dayOfYear_mono_day) (simp_all add: validDate_def)
    with 3 show ?thesis by (simp add: dayNumber_def)
  qed
qed

lemma unixDate_eq:
  "unixDate y m d h mi s = dayNumber y m d * 86400 + int (h * 3600 + mi * 60 + s)"
  by (simp add: unixDate_def dayNumber_def dayOfYear_def)

lemma unixDate_mono:
  assumes "validDate y m d" and "validDate y' m' d'"
    and "h < 24" "mi < 60" "s < 60" "h' < 24" "mi' < 60" "s' < 60"
    and "y < y' \<or> y = y' \<and> (m < m' \<or> m = m' \<and> (d < d' \<or> d = d' \<and>
           (h < h' \<or> h = h' \<and> (mi < mi' \<or> mi = mi' \<and> s < s'))))"
  shows "unixDate y m d h mi s < unixDate y' m' d' h' mi' s'"
proof (cases "y = y' \<and> m = m' \<and> d = d'")
  case True
  with assms(9) have "h < h' \<or> h = h' \<and> (mi < mi' \<or> mi = mi' \<and> s < s')"
    by auto
  with assms(3-8) have "h * 3600 + mi * 60 + s < h' * 3600 + mi' * 60 + s'"
    by arith
  with True show ?thesis
    by (simp add: unixDate_eq)
next
  case False
  with assms(9) have "y < y' \<or> y = y' \<and> (m < m' \<or> m = m' \<and> d < d')"
    by auto
  from dayNumber_mono [OF assms(1,2) this]
  have "dayNumber y m d + 1 \<le> dayNumber y' m' d'"
    by simp
  then have "(dayNumber y m d + 1) * 86400 \<le> dayNumber y' m' d' * 86400"
    by simp
  moreover have "int (h * 3600 + mi * 60 + s) < 86400"
    using assms(3-5) by simp
  ultimately show ?thesis
    by (simp add: unixDate_eq algebra_simps)
qed

section \<open>Normalized timestamps: the order of the texts is the order of the instants\<close>

lemma isDigit_iff: "isDigit c \<longleftrightarrow> 48 \<le> (of_char c :: nat) \<and> (of_char c :: nat) \<le> 57"
  by (simp add: isDigit_def less_eq_char_def)

lemma digit_val_le: "isDigit c \<Longrightarrow> digit_val c \<le> 9"
  unfolding isDigit_iff digit_val_def by arith

lemma digit_less: "isDigit c \<Longrightarrow> isDigit d \<Longrightarrow> (c < d) = (digit_val c < digit_val d)"
  unfolding isDigit_iff digit_val_def less_char_def by arith

lemma digit_eq: "isDigit c \<Longrightarrow> isDigit d \<Longrightarrow> (c = d) = (digit_val c = digit_val d)"
proof -
  assume "isDigit c" "isDigit d"
  then have "(digit_val c = digit_val d) = ((of_char c :: nat) = of_char d)"
    unfolding isDigit_iff digit_val_def by arith
  then show ?thesis
    by simp
qed

lemma strip_runes_no_prefix:
  assumes "\<forall>w\<in>set ws. w = [] \<or> hd w \<noteq> c"
  shows "strip_runes ws (c # r) = c # r"
proof -
  have "find (\<lambda>w. w \<noteq> [] \<and> prefix w (c # r)) ws = None"
    unfolding find_None_iff
  proof (intro notI, elim exE conjE)
    fix w
    assume w: "w \<in> set ws" "w \<noteq> []" "prefix w (c # r)"
    have "hd w = c"
      using w(2,3) by (cases w) simp_all
    moreover have "hd w \<noteq> c"
      using assms w(1,2) by blast
    ultimately show False
      by simp
  qed
  then show ?thesis
    by (simp add: strip_runes.simps [of ws "c # r"])
qed

lemma digit_not_space_head: "isDigit c \<Longrightarrow> \<forall>w\<in>set space_runes. w = [] \<or> hd w \<noteq> c"
  by (auto simp: space_runes_def isDigit_iff)

lemma Z_not_space_last: "\<forall>w\<in>set (map rev space_runes). w = [] \<or> hd w \<noteq> CHR ''Z''"
  by (simp add: space_runes_def)

lemma TrimSpace_digit_Z:
  assumes "isDigit c"
  shows "TrimSpace (c # r @ ''Z'') = c # r @ ''Z''"
proof -
  have "TrimLeft (c # r @ ''Z'') = c # r @ ''Z''"
    unfolding TrimLeft_def
    by (rule strip_runes_no_prefix) (rule digit_not_space_head [OF assms])
  moreover have "TrimRight (c # r @ ''Z'') = c # r @ ''Z''"
  proof -
    have "strip_runes (map rev space_runes) (CHR ''Z'' # rev r @ [c]) = CHR ''Z'' # rev r @ [c]"
      by (rule strip_runes_no_prefix) (rule Z_not_space_last)
    then show ?thesis
      by (simp add: TrimRight_def)
  qed
  ultimately show ?thesis
    by (simp add: TrimSpace_def)
qed

lemma parse_explicit:
  assumes "isDigit y1" "isDigit y2" "isDigit y3" "isDigit y4" "isDigit m1" "isDigit m2"
    "isDigit d1" "isDigit d2" "isDigit h1" "isDigit h2" "isDigit n1" "isDigit n2"
    "isDigit s1" "isDigit s2"
  shows "parseRFC3339 [y1, y2, y3, y4, CHR ''-'', m1, m2, CHR ''-'', d1, d2, CHR ''T'', h1, h2,
            CHR '':'', n1, n2, CHR '':'', s1, s2, CHR ''Z'']
         = (if validDate (num4 y1 y2 y3 y4) (num2 m1 m2) (num2 d1 d2)
               \<and> num2 h1 h2 < 24 \<and> num2 n1 n2 < 60 \<and> num2 s1 s2 < 60
            then Some (unixDate (num4 y1 y2 y3 y4) (num2 m1 m2) (num2 d1 d2)
                         (num2 h1 h2) (num2 n1 n2) (num2 s1 s2), 0)
            else None)"
  using assms
  by (simp add: parseRFC3339_def getyear_def skip_def parseFraction_def parseZone_def atoi4_def
      num2_def num4_def validDate_def)

lemma pair_lex:
  fixes a b c d :: nat
  assumes "b \<le> 9" and "d \<le> 9"
  shows "(a * 10 + b < c * 10 + d) = (a < c \<or> a = c \<and> b < d)"
    and "(a * 10 + b = c * 10 + d) = (a = c \<and> b = d)"
proof -
  consider "a < c" | "a = c" | "c < a"
    by linarith
  then show "(a * 10 + b < c * 10 + d) = (a < c \<or> a = c \<and> b < d)"
    using assms by cases simp_all
  consider "a < c" | "a = c" | "c < a"
    by linarith
  then show "(a * 10 + b = c * 10 + d) = (a = c \<and> b = d)"
    using assms by cases simp_all
qed

lemma num2_less:
  assumes "isDigit a1" "isDigit a2" "isDigit b1" "isDigit b2"
  shows "(num2 a1 a2 < num2 b1 b2) = ([a1, a2] < [b1, b2])"
    and "(num2 a1 a2 = num2 b1 b2) = ([a1, a2] = [b1, b2])"
proof -
  note p2 = pair_lex [OF digit_val_le [OF assms(2)] digit_val_le [OF assms(4)]]
  show "(num2 a1 a2 < num2 b1 b2) = ([a1, a2] < [b1, b2])"
    unfolding num2_def p2 Cons_less_Cons
      digit_less [OF assms(1) assms(3)] digit_less [OF assms(2) assms(4)]
      digit_eq [OF assms(1) assms(3)] digit_eq [OF assms(2) assms(4)]
    by blast
  show "(num2 a1 a2 = num2 b1 b2) = ([a1, a2] = [b1, b2])"
    unfolding num2_def p2 list.inject
      digit_eq [OF assms(1) assms(3)] digit_eq [OF assms(2) assms(4)]
    by blast
qed

lemma num4_less:
  assumes "isDigit a1" "isDigit a2" "isDigit a3" "isDigit a4"
    "isDigit b1" "isDigit b2" "isDigit b3" "isDigit b4"
  shows "(num4 a1 a2 a3 a4 < num4 b1 b2 b3 b4) = ([a1, a2, a3, a4] < [b1, b2, b3, b4])"
    and "(num4 a1 a2 a3 a4 = num4 b1 b2 b3 b4) = ([a1, a2, a3, a4] = [b1, b2, b3, b4])"
proof -
  note p2 = pair_lex [OF digit_val_le [OF assms(2)] digit_val_le [OF assms(6)]]
  note p3 = pair_lex [OF digit_val_le [OF assms(3)] digit_val_le [OF assms(7)]]
  note p4 = pair_lex [OF digit_val_le [OF assms(4)] digit_val_le [OF assms(8)]]
  show "(num4 a1 a2 a3 a4 < num4 b1 b2 b3 b4) = ([a1, a2, a3, a4] < [b1, b2, b3, b4])"
    unfolding num4_def p4 p3 p2 Cons_less_Cons
      digit_less [OF assms(1) assms(5)] digit_less [OF assms(2) assms(6)]
      digit_less [OF assms(3) assms(7)] digit_less [OF assms(4) assms(8)]
      digit_eq [OF assms(1) assms(5)] digit_eq [OF assms(2) assms(6)]
      digit_eq [OF assms(3) assms(7)] digit_eq [OF assms(4) assms(8)]
    by blast
  show "(num4 a1 a2 a3 a4 = num4 b1 b2 b3 b4) = ([a1, a2, a3, a4] = [b1, b2, b3, b4])"
    unfolding num4_def p4 p3 p2 list.inject
      digit_eq [OF assms(1) assms(5)] digit_eq [OF assms(2) assms(6)]
      digit_eq [OF assms(3) assms(7)] digit_eq [OF assms(4) assms(8)]
    by blast
qed

lemma chunk_less:
  fixes u u' v v' :: "'a::linorder list"
  assumes "length u = length u'"
  shows "(u @ v < u' @ v') = (u < u' \<or> u = u' \<and> v < v')"
  using assms by (induction u u' rule: list_induct2) auto

lemma sep4:
  fixes c :: "'a::linorder"
  shows "(a1 # a2 # a3 # a4 # c # v < b1 # b2 # b3 # b4 # c # v')
           = ([a1, a2, a3, a4] < [b1, b2, b3, b4] \<or> [a1, a2, a3, a4] = [b1, b2, b3, b4] \<and> v < v')"
  by auto

lemma sep2:
  fixes c :: "'a::linorder"
  shows "(a1 # a2 # c # v < b1 # b2 # c # v')
           = ([a1, a2] < [b1, b2] \<or> [a1, a2] = [b1, b2] \<and> v < v')"
  by auto

lemma last2:
  fixes c :: "'a::linorder"
  shows "([a1, a2, c] < [b1, b2, c]) = ([a1, a2] < [b1, b2])"
  by auto

lemma length20:
  assumes "length s = 20"
  shows "s = [s ! 0, s ! 1, s ! 2, s ! 3, s ! 4, s ! 5, s ! 6, s ! 7, s ! 8, s ! 9, s ! 10,
              s ! 11, s ! 12, s ! 13, s ! 14, s ! 15, s ! 16, s ! 17, s ! 18, s ! 19]"
proof -
  from assms obtain c0 c1 c2 c3 c4 c5 c6 c7 c8 c9 c10 c11 c12 c13 c14 c15 c16 c17 c18 c19
    where "s = [c0, c1, c2, c3, c4, c5, c6, c7, c8, c9, c10, c11, c12, c13, c14, c15, c16,
                c17, c18, c19]"
    by (auto simp: eval_nat_numeral length_Suc_conv)
  then show ?thesis
    by simp
qed

lemma normalized_expand:
  assumes "normalized_ts s"
  shows "s = [s ! 0, s ! 1, s ! 2, s ! 3, CHR ''-'', s ! 5, s ! 6, CHR ''-'', s ! 8, s ! 9,
              CHR ''T'', s ! 11, s ! 12, CHR '':'', s ! 14, s ! 15, CHR '':'', s ! 17, s ! 18,
              CHR ''Z'']"
proof -
  have "length s = 20"
    using assms by (simp add: normalized_ts_def)
  from length20 [OF this] show ?thesis
    using assms by (simp add: normalized_ts_def)
qed

lemma normalized_digits:
  assumes "normalized_ts s"
  shows "isDigit (s ! 0)" "isDigit (s ! 1)" "isDigit (s ! 2)" "isDigit (s ! 3)"
    "isDigit (s ! 5)" "isDigit (s ! 6)" "isDigit (s ! 8)" "isDigit (s ! 9)"
    "isDigit (s ! 11)" "isDigit (s ! 12)" "isDigit (s ! 14)" "isDigit (s ! 15)"
    "isDigit (s ! 17)" "isDigit (s ! 18)"
  using assms by (simp_all add: normalized_ts_def)

lemma parse_normalized:
  assumes "normalized_ts s"
  shows "parseTime s
           = (if tsValid s
              then Some (unixDate (tsY s) (tsM s) (tsD s) (tsh s) (tsm s) (tss s), 0)
              else None)"
proof -
  note d = normalized_digits [OF assms]
  let ?mid = "[s ! 1, s ! 2, s ! 3, CHR ''-'', s ! 5, s ! 6, CHR ''-'', s ! 8, s ! 9,
              CHR ''T'', s ! 11, s ! 12, CHR '':'', s ! 14, s ! 15, CHR '':'', s ! 17, s ! 18]"
  have e: "s = s ! 0 # ?mid @ ''Z''"
    using normalized_expand [OF assms] by simp
  have "TrimSpace (s ! 0 # ?mid @ ''Z'') = s ! 0 # ?mid @ ''Z''"
    by (rule TrimSpace_digit_Z [OF d(1)])
  then have t: "TrimSpace s = s"
    using e by simp
  have "parseRFC3339 [s ! 0, s ! 1, s ! 2, s ! 3, CHR ''-'', s ! 5, s ! 6, CHR ''-'', s ! 8, s ! 9,
              CHR ''T'', s ! 11, s ! 12, CHR '':'', s ! 14, s ! 15, CHR '':'', s ! 17, s ! 18,
              CHR ''Z'']
          = (if tsValid s
              then Some (unixDate (tsY s) (tsM s) (tsD s) (tsh s) (tsm s) (tss s), 0)
              else None)"
    unfolding tsValid_def tsY_def tsM_def tsD_def tsh_def tsm_def tss_def
    by (rule parse_explicit [OF d])
  then show ?thesis
    using normalized_expand [OF assms] by (simp add: parseTime_def t)
qed

lemma less_normalized:
  assumes "normalized_ts a" and "normalized_ts b"
  shows "(a < b) = tsLess a b"
proof -
  note da = normalized_digits [OF assms(1)]
  note db = normalized_digits [OF assms(2)]
  have "(a < b)
          = ([a ! 0, a ! 1, a ! 2, a ! 3, CHR ''-'', a ! 5, a ! 6, CHR ''-'', a ! 8, a ! 9,
              CHR ''T'', a ! 11, a ! 12, CHR '':'', a ! 14, a ! 15, CHR '':'', a ! 17, a ! 18,
              CHR ''Z'']
             < [b ! 0, b ! 1, b ! 2, b ! 3, CHR ''-'', b ! 5, b ! 6, CHR ''-'', b ! 8, b ! 9,
              CHR ''T'', b ! 11, b ! 12, CHR '':'', b ! 14, b ! 15, CHR '':'', b ! 17, b ! 18,
              CHR ''Z''])"
    using normalized_expand [OF assms(1)] normalized_expand [OF assms(2)] by metis
  also have "\<dots> = tsLess a b"
    unfolding sep4 sep2 last2 tsLess_def tsY_def tsM_def tsD_def tsh_def tsm_def tss_def
      num4_less [OF da(1-4) db(1-4)]
      num2_less [OF da(5,6) db(5,6)] num2_less [OF da(7,8) db(7,8)]
      num2_less [OF da(9,10) db(9,10)] num2_less [OF da(11,12) db(11,12)]
      num2_less [OF da(13,14) db(13,14)]
    by (simp only: not_less_Nil simp_thms)
  finally show ?thesis .
qed


lemma tsLess_unix:
  assumes "tsValid a" and "tsValid b" and "tsLess a b"
  shows "unixDate (tsY a) (tsM a) (tsD a) (tsh a) (tsm a) (tss a)
           < unixDate (tsY b) (tsM b) (tsD b) (tsh b) (tsm b) (tss b)"
  using assms unfolding tsValid_def tsLess_def
  by (intro unixDate_mono) blast+

text \<open>On normalized timestamps that parse, the order of the texts is the order of the instants.\<close>

lemma normalized_less_instant:
  assumes "normalized_ts a" and "normalized_ts b"
    and "parseTime a = Some ta" and "parseTime b = Some tb" and "a < b"
  shows "fst ta < fst tb"
proof -
  have va: "tsValid a" and ta: "ta = (unixDate (tsY a) (tsM a) (tsD a) (tsh a) (tsm a) (tss a), 0)"
    using assms(3) parse_normalized [OF assms(1)] by (auto split: if_splits)
  have vb: "tsValid b" and tb: "tb = (unixDate (tsY b) (tsM b) (tsD b) (tsh b) (tsm b) (tss b), 0)"
    using assms(4) parse_normalized [OF assms(2)] by (auto split: if_splits)
  have "tsLess a b"
    using assms(5) less_normalized [OF assms(1,2)] by simp
  from tsLess_unix [OF va vb this] show ?thesis
    by (simp add: ta tb)
qed

section \<open>The items of the document\<close>

lemma feedItems_all2:
  "list_all2 (itemFor fl) (feedItems fl es) (filter (\<lambda>x. parseTime (CreatedAt x) \<noteq> None) es)"
  by (induction es) (auto simp: itemFor_def split: option.splits)

lemma sorted_wrt_distinct:
  assumes "sorted_wrt P xs" and "distinct (map f xs)"
  shows "sorted_wrt (\<lambda>a b. P a b \<and> f a \<noteq> f b) xs"
  using assms by (induction xs) auto

lemma mset_insert_by: "mset (insert_by lt x xs) = add_mset x (mset xs)"
  by (induction xs) auto

lemma mset_insertion_sort: "mset (insertion_sort lt xs) = mset xs"
  by (induction xs) (auto simp: mset_insert_by)

lemma set_insert_by: "set (insert_by lt x xs) = insert x (set xs)"
  by (induction xs) auto

lemma sorted_insert_by:
  assumes "sorted_wrt (\<lambda>a b. \<not> createdAfter b a) xs"
  shows "sorted_wrt (\<lambda>a b. \<not> createdAfter b a) (insert_by createdAfter x xs)"
  using assms
  by (induction xs) (auto simp: set_insert_by createdAfter_def)

lemma sorted_insertion_sort:
  "sorted_wrt (\<lambda>a b. \<not> createdAfter b a) (insertion_sort createdAfter xs)"
  by (induction xs) (auto intro: sorted_insert_by)

lemma insertion_sort_sorts: "sorts_by createdAfter xs (insertion_sort createdAfter xs)"
  by (simp add: sorts_by_def mset_insertion_sort sorted_insertion_sort)

text \<open>An item carries the identity of its entry.\<close>

lemma itemFor_rID: "itemFor fl it x \<Longrightarrow> rID it = ID x"
  by (auto simp: itemFor_def toRssItem_def split: option.splits)

lemma items_ids: "list_all2 (itemFor fl) its xs \<Longrightarrow> map rID its = map ID xs"
  by (induction rule: list_all2_induct) (auto dest: itemFor_rID)

text \<open>The last-build time is read from the first entry in sorted order, and from no other.\<close>

lemma lastBuildDate_first_sorted:
  "LastBuildDate (buildChannel fl site entries)
     = (case sortSlice fl createdAfter entries of
          [] \<Rightarrow> []
        | x # _ \<Rightarrow> (case parseTime (CreatedAt x) of
                      Some t \<Rightarrow> formatRFC1123Z fl t
                    | None \<Rightarrow> []))"
  by (simp add: buildChannel_def Let_def split: list.splits)

section \<open>The run: what the loop computes\<close>

lemma addLatest_prefix:
  "addLatestFromProvider lib w provider entries state = (r, entries', state') \<Longrightarrow> prefix entries entries'"
  by (auto simp: addLatestFromProvider_def Let_def split: sum.splits if_splits)

lemma addLatest_error:
  "addLatestFromProvider lib w provider entries state = (Inl err, entries', state')
     \<Longrightarrow> entries' = entries \<and> state' = state"
  by (auto simp: addLatestFromProvider_def Let_def split: sum.splits if_splits)

lemma pollProviders_prefix:
  "pollProviders lib ws ps (u, fe, es, st) = (u', fe', es', st') \<Longrightarrow> prefix es es'"
proof (induction ps arbitrary: u fe es st)
  case Nil
  then show ?case by simp
next
  case (Cons p ps)
  obtain r es1 st1 where a: "addLatestFromProvider lib (ws (Name p)) p es st = (r, es1, st1)"
    by (cases "addLatestFromProvider lib (ws (Name p)) p es st") auto
  have p1: "prefix es es1"
    using a by (rule addLatest_prefix)
  have "prefix es1 es'"
  proof (cases r)
    case (Inl err)
    with Cons.prems a show ?thesis
      by (auto dest: Cons.IH)
  next
    case (Inr added)
    with Cons.prems a show ?thesis
      by (auto dest: Cons.IH)
  qed
  with p1 show ?case
    by (rule prefix_order.trans)
qed

lemma pollProviders_updated:
  "fst (pollProviders lib ws ps (u, fe, es, st))
     = (u \<or> Inr True \<in> set (pollResults lib ws ps es st))"
proof (induction ps arbitrary: u fe es st)
  case Nil
  then show ?case by simp
next
  case (Cons p ps)
  obtain r es1 st1 where a: "addLatestFromProvider lib (ws (Name p)) p es st = (r, es1, st1)"
    by (cases "addLatestFromProvider lib (ws (Name p)) p es st") auto
  show ?case
  proof (cases r)
    case (Inl err)
    with a show ?thesis by (simp add: Cons.IH)
  next
    case (Inr added)
    with a show ?thesis by (auto simp: Cons.IH)
  qed
qed

lemma pollProviders_firstErr:
  "fst (snd (pollProviders lib ws ps (u, fe, es, st)))
     = (case fe of Some e \<Rightarrow> Some e | None \<Rightarrow> firstError (pollResults lib ws ps es st))"
proof (induction ps arbitrary: u fe es st)
  case Nil
  then show ?case by (simp split: option.splits)
next
  case (Cons p ps)
  obtain r es1 st1 where a: "addLatestFromProvider lib (ws (Name p)) p es st = (r, es1, st1)"
    by (cases "addLatestFromProvider lib (ws (Name p)) p es st") auto
  show ?case
  proof (cases r)
    case (Inl err)
    with a show ?thesis by (simp add: Cons.IH split: option.splits)
  next
    case (Inr added)
    with a show ?thesis by (simp add: Cons.IH split: option.splits)
  qed
qed


lemma TrimSpace_Nil: "TrimSpace [] = []"
  by code_simp

lemma empty_item_title: "TrimSpace (iTitle empty_item) = []"
  by code_simp

lemma results_one_error:
  "pollResults test_lib (polls env_one_error) feedProviders (loadEntries empty_disk) (loadState empty_disk)
     = [Inl (Error ''wordpress releases api status: 503''), Inr False, Inr False]"
  by (simp add: feedProviders_def env_one_error_def addLatestFromProvider_def poll_of_def
      empty_item_title loadEntries_def loadState_def empty_disk_def)

lemma results_no_items:
  "pollResults test_lib (polls env_no_items) feedProviders (loadEntries empty_disk) (loadState empty_disk)
     = [Inr False, Inr False, Inr False]"
  by (simp add: feedProviders_def env_no_items_def addLatestFromProvider_def poll_of_def
      empty_item_title loadEntries_def loadState_def empty_disk_def)

lemma results_new_release:
  "pollResults test_lib (polls env_new_release) feedProviders (loadEntries empty_disk) (loadState empty_disk)
     = [Inr True, Inl (Error ''wordpress tv api status: 503''), Inr False]"
  by (simp add: feedProviders_def env_new_release_def add_release loadEntries_def loadState_def
      empty_disk_def)
    (simp add: addLatestFromProvider_def poll_of_def empty_item_title)

lemmas parse_defs = parseRFC3339_def getyear_def skip_def parseFraction_def parseZone_def
     atoi4_def digit_val_def daysIn_def daysBefore_def isLeap_def unixDate_def daysBeforeYear_def
     leapsThrough_def
     isDigit_def less_eq_char_def

lemma trim_fixtures:
  "TrimSpace ''2024-04-02T17:00:00Z'' = ''2024-04-02T17:00:00Z''"
  "TrimSpace ''yesterday'' = ''yesterday''"
  by code_simp+

lemma parse_release_time: "parseTime ''2024-04-02T17:00:00Z'' = Some (1712077200, 0)"
  by (simp add: parseTime_def trim_fixtures parse_defs)

lemma parse_yesterday: "parseTime ''yesterday'' = None"
  by (simp add: parseTime_def trim_fixtures parse_defs)

lemma insertion_sort_one: "insertion_sort lt [x] = [x]"
  by simp



lemma run_bad_entry:
  "RunFeedUpdate test_lib test_feedlib env_new_release disk_bad_entry
     = \<lparr>out = ReturnNil, stdout = [''update detected''],
        disk_after =
          \<lparr>site_file = None,
           state_file = Some \<lparr>Latest = [''wordpress-releases'' \<mapsto> ''43315ac7d16520ab32824697ced71b24'']\<rparr>,
           entries_file = Some [bad_entry, release_entry],
           feed_file = Some (buildChannel test_feedlib defaultSite [bad_entry, release_entry])\<rparr>\<rparr>"
proof -
  have p: "pollProviders test_lib (polls env_new_release) feedProviders
             (False, None, loadEntries disk_bad_entry, loadState disk_bad_entry)
           = (True, Some (Error ''wordpress tv api status: 503''), [bad_entry, release_entry],
              \<lparr>Latest = [''wordpress-releases'' \<mapsto> ''43315ac7d16520ab32824697ced71b24'']\<rparr>)"
    by (simp add: feedProviders_def env_new_release_def add_release_after_bad loadEntries_def
        loadState_def disk_bad_entry_def)
      (simp add: addLatestFromProvider_def poll_of_def empty_item_title)
  show ?thesis
    unfolding RunFeedUpdate_def p
    by (simp add: env_new_release_def writeJSON_def buildFeed_def disk_bad_entry_def loadSite_def)
qed

lemma sort_bad_release:
  "insertion_sort createdAfter [bad_entry, release_entry] = [bad_entry, release_entry]"
  by (simp add: createdAfter_def) (simp add: bad_entry_def release_entry_def)

lemma channel_bad_release:
  "buildChannel test_feedlib defaultSite [bad_entry, release_entry]
     = \<lparr>cTitle = ''Wapuugotchi RSS'', cLink = [], cDescription = [], LastBuildDate = [],
        Items = [toRssItem test_feedlib release_entry (1712077200, 0)]\<rparr>"
proof -
  have s: "sortSlice test_feedlib createdAfter [bad_entry, release_entry]
             = [bad_entry, release_entry]"
    using sort_bad_release by (simp add: test_feedlib_def)
  have b: "parseTime (CreatedAt bad_entry) = None"
    by (simp add: bad_entry_def parse_yesterday)
  have r: "parseTime (CreatedAt release_entry) = Some (1712077200, 0)"
    by (simp add: release_entry_def parse_release_time)
  show ?thesis
    unfolding buildChannel_def s
    by (simp add: b r defaultSite_def)
qed


section \<open>The run: result, persistence, the document\<close>

text \<open>
  Claim C2, as amended. With the polls' results \<open>rs\<close> in order: when no provider created
  an entry, the run returns the first provider error, if there is one (also when other
  providers' polls succeeded without creating an entry), and nil otherwise; when some
  provider created an entry, the provider errors do not count: the run ends with status 1
  if writing the state or the entries fails, returns the error of \<open>buildFeed\<close> if that
  fails, and returns nil otherwise.
\<close>

theorem run_result_by_polls:
  assumes "getwd env = Inr root"
    and "rs = pollResults lib (polls env) feedProviders (loadEntries d) (loadState d)"
  shows "(Inr True \<notin> set rs \<longrightarrow>
            out (RunFeedUpdate lib fl env d)
              = (case firstError rs of Some err \<Rightarrow> ReturnErr err | None \<Rightarrow> ReturnNil))
         \<and> (Inr True \<in> set rs \<longrightarrow>
            out (RunFeedUpdate lib fl env d)
              = (if write_state env \<noteq> WriteOk \<or> write_entries env \<noteq> WriteOk then Exit1
                 else (case write_feed env of
                         FeedOk \<Rightarrow> ReturnNil
                       | FeedCreateFails err \<Rightarrow> ReturnErr err
                       | FeedWriteFails err \<Rightarrow> ReturnErr err)))"
proof -
  obtain u fe es st where
    p: "pollProviders lib (polls env) feedProviders (False, None, loadEntries d, loadState d)
          = (u, fe, es, st)"
    by (metis prod_cases4)
  have u: "u = (Inr True \<in> set rs)"
    using pollProviders_updated [of lib "polls env" feedProviders False None "loadEntries d" "loadState d"]
      p assms(2) by simp
  have fe: "fe = firstError rs"
    using pollProviders_firstErr [of lib "polls env" feedProviders False None "loadEntries d" "loadState d"]
      p assms(2) by simp
  show ?thesis
    using assms(1) p u fe
    by (auto simp: RunFeedUpdate_def writeJSON_def buildFeed_def Let_def
        split: option.splits json_write.splits feed_write.splits)
qed

theorem run_result_by_polls_witness:
  "pollResults test_lib (polls env_new_release) feedProviders (loadEntries empty_disk)
       (loadState empty_disk)
     = [Inr True, Inl (Error ''wordpress tv api status: 503''), Inr False]
   \<and> out (RunFeedUpdate test_lib test_feedlib env_new_release empty_disk) = ReturnNil"
proof -
  have g: "getwd env_new_release = Inr ''/srv/feed''"
    by (simp add: env_new_release_def)
  show ?thesis
    using run_result_by_polls [OF g refl, of test_lib empty_disk test_feedlib]
    by (simp add: results_new_release) (simp add: env_new_release_def)
qed


text \<open>
  Claim C2 as stated fails: the first provider's fetch fails, the polls of the other two
  succeed (their feeds have no item, so nothing is created), and the run returns the
  first provider's error instead of completing successfully.
\<close>

theorem run_one_error_counterexample:
  "pollResults test_lib (polls env_one_error) feedProviders (loadEntries empty_disk)
       (loadState empty_disk)
     = [Inl (Error ''wordpress releases api status: 503''), Inr False, Inr False]
   \<and> out (RunFeedUpdate test_lib test_feedlib env_one_error empty_disk)
     = ReturnErr (Error ''wordpress releases api status: 503'')"
proof -
  have "pollProviders test_lib (polls env_one_error) feedProviders
          (False, None, loadEntries empty_disk, loadState empty_disk)
        = (False, Some (Error ''wordpress releases api status: 503''), [], \<lparr>Latest = Map.empty\<rparr>)"
    by (simp add: feedProviders_def env_one_error_def addLatestFromProvider_def poll_of_def
      empty_item_title loadEntries_def loadState_def empty_disk_def)
  then have "out (RunFeedUpdate test_lib test_feedlib env_one_error empty_disk)
     = ReturnErr (Error ''wordpress releases api status: 503'')"
    by (simp add: RunFeedUpdate_def) (simp add: env_one_error_def)
  with results_one_error show ?thesis
    by simp
qed


text \<open>
  Claim C5, as amended. \<open>updated\<close> is true exactly when some provider created an entry.
  When it is and the three writes succeed, the state and the entry list are persisted and
  the feed file holds the document built from the entry list; when no provider created an
  entry, no file is written.
\<close>

theorem run_persists_when_created:
  assumes "getwd env = Inr root"
    and "pollProviders lib (polls env) feedProviders (False, None, loadEntries d, loadState d)
           = (updated, firstErr, entries, state)"
  shows "updated = (Inr True \<in> set (pollResults lib (polls env) feedProviders (loadEntries d) (loadState d)))
         \<and> (updated \<and> write_state env = WriteOk \<and> write_entries env = WriteOk
              \<and> write_feed env = FeedOk \<longrightarrow>
              RunFeedUpdate lib fl env d
                = \<lparr>out = ReturnNil, stdout = [''update detected''],
                   disk_after = d\<lparr>state_file := Some state, entries_file := Some entries,
                                   feed_file := Some (buildChannel fl (loadSite d) entries)\<rparr>\<rparr>)
         \<and> (\<not> updated \<longrightarrow> disk_after (RunFeedUpdate lib fl env d) = d)"
proof -
  have u: "updated = (Inr True \<in> set (pollResults lib (polls env) feedProviders (loadEntries d) (loadState d)))"
    using pollProviders_updated [of lib "polls env" feedProviders False None "loadEntries d" "loadState d"]
      assms(2) by simp
  show ?thesis
    using assms u
    by (auto simp: RunFeedUpdate_def writeJSON_def buildFeed_def Let_def)
qed

theorem run_persists_when_created_witness:
  "RunFeedUpdate test_lib test_feedlib env_new_release empty_disk
     = \<lparr>out = ReturnNil, stdout = [''update detected''],
        disk_after =
          \<lparr>site_file = None,
           state_file = Some \<lparr>Latest = [''wordpress-releases'' \<mapsto> ''43315ac7d16520ab32824697ced71b24'']\<rparr>,
           entries_file = Some [release_entry],
           feed_file = Some
             \<lparr>cTitle = ''Wapuugotchi RSS'', cLink = [], cDescription = [],
              LastBuildDate = ''Tue, 02 Apr 2024 17:00:00 +0000'',
              Items = [\<lparr>rID = ''43315ac7d16520ab32824697ced71b24'', rTitle = ''WordPress 6.5'',
                        rLink = ''https://wordpress.org/news/2024/04/regina/'',
                        rPubDate = ''Tue, 02 Apr 2024 17:00:00 +0000'',
                        rDescription = ''Say hello'', rCategories = [''Releases'']\<rparr>]\<rparr>\<rparr>\<rparr>"
proof -
  have g: "getwd env_new_release = Inr ''/srv/feed''"
    by (simp add: env_new_release_def)
  have p: "pollProviders test_lib (polls env_new_release) feedProviders
             (False, None, loadEntries empty_disk, loadState empty_disk)
           = (True, Some (Error ''wordpress tv api status: 503''), [release_entry],
              \<lparr>Latest = [''wordpress-releases'' \<mapsto> ''43315ac7d16520ab32824697ced71b24'']\<rparr>)"
    by (simp add: feedProviders_def env_new_release_def add_release loadEntries_def loadState_def
      empty_disk_def)
      (simp add: addLatestFromProvider_def poll_of_def empty_item_title)
  have w: "write_state env_new_release = WriteOk" "write_entries env_new_release = WriteOk"
    "write_feed env_new_release = FeedOk"
    by (simp_all add: env_new_release_def)
  have c: "buildChannel test_feedlib (loadSite empty_disk) [release_entry]
     = \<lparr>cTitle = ''Wapuugotchi RSS'', cLink = [], cDescription = [],
              LastBuildDate = ''Tue, 02 Apr 2024 17:00:00 +0000'',
              Items = [\<lparr>rID = ''43315ac7d16520ab32824697ced71b24'', rTitle = ''WordPress 6.5'',
                        rLink = ''https://wordpress.org/news/2024/04/regina/'',
                        rPubDate = ''Tue, 02 Apr 2024 17:00:00 +0000'',
                        rDescription = ''Say hello'', rCategories = [''Releases'']\<rparr>]\<rparr>"
    by (simp add: buildChannel_def test_feedlib_def release_entry_def parse_release_time
        toRssItem_def loadSite_def empty_disk_def defaultSite_def)
  show ?thesis
    using run_persists_when_created [OF g p, of test_feedlib] w
    by (simp add: c) (simp add: empty_disk_def)
qed


text \<open>
  Claim C5 as stated fails: all three polls succeed without creating an entry, the run
  returns nil, and neither the state nor the entry list is persisted, nor is the document
  built: the three files are still absent.
\<close>

theorem run_no_items_counterexample:
  "pollResults test_lib (polls env_no_items) feedProviders (loadEntries empty_disk)
       (loadState empty_disk)
     = [Inr False, Inr False, Inr False]
   \<and> RunFeedUpdate test_lib test_feedlib env_no_items empty_disk
     = \<lparr>out = ReturnNil, stdout = [''no update detected''],
        disk_after = \<lparr>site_file = None, state_file = None, entries_file = None,
                       feed_file = None\<rparr>\<rparr>"
proof -
  have "pollProviders test_lib (polls env_no_items) feedProviders
          (False, None, loadEntries empty_disk, loadState empty_disk)
        = (False, None, [], \<lparr>Latest = Map.empty\<rparr>)"
    by (simp add: feedProviders_def env_no_items_def addLatestFromProvider_def poll_of_def
      empty_item_title loadEntries_def loadState_def empty_disk_def)
  then have "RunFeedUpdate test_lib test_feedlib env_no_items empty_disk
     = \<lparr>out = ReturnNil, stdout = [''no update detected''], disk_after = empty_disk\<rparr>"
    by (simp add: RunFeedUpdate_def) (simp add: env_no_items_def)
  with results_no_items show ?thesis
    by (simp add: empty_disk_def)
qed


text \<open>
  Claim C8. An entry \<open>e\<close> of the stored entry list has a creation timestamp that does not
  parse. After the run the stored entry list still contains \<open>e\<close> (unless the write of the
  entry list itself breaks off and leaves an incomplete file). When the run has rebuilt
  the document, the document is the one built from the stored entry list, and its items
  are built, one for one and in this order, from the entries of the sorted list whose
  timestamps parse: \<open>e\<close> is not one of them. When \<open>sort.Slice\<close> has sorted, these are
  exactly the entries of the list whose timestamps parse, and when moreover the identities
  of the list are pairwise distinct, no item of the document carries the identity of \<open>e\<close>.
\<close>

theorem unparsable_entry_kept_not_listed:
  assumes "parseTime (CreatedAt e) = None"
    and "getwd env = Inr root" and "entries_file d = Some es" and "e \<in> set es"
    and "write_entries env \<noteq> EncodeFails"
  shows "(\<exists>es'. entries_file (disk_after (RunFeedUpdate lib fl env d)) = Some es' \<and> e \<in> set es')
       \<and> (stdout (RunFeedUpdate lib fl env d) = [''update detected''] \<longrightarrow>
            (\<exists>entries.
               entries_file (disk_after (RunFeedUpdate lib fl env d)) = Some entries
               \<and> e \<in> set entries
               \<and> feed_file (disk_after (RunFeedUpdate lib fl env d))
                   = Some (buildChannel fl (loadSite d) entries)
               \<and> list_all2 (itemFor fl) (Items (buildChannel fl (loadSite d) entries))
                    (filter (\<lambda>x. parseTime (CreatedAt x) \<noteq> None)
                       (sortSlice fl createdAfter entries))
               \<and> e \<notin> set (filter (\<lambda>x. parseTime (CreatedAt x) \<noteq> None)
                              (sortSlice fl createdAfter entries))
               \<and> (sorts_by createdAfter entries (sortSlice fl createdAfter entries) \<longrightarrow>
                    mset (filter (\<lambda>x. parseTime (CreatedAt x) \<noteq> None)
                            (sortSlice fl createdAfter entries))
                      = mset (filter (\<lambda>x. parseTime (CreatedAt x) \<noteq> None) entries)
                    \<and> (distinct (map ID entries) \<longrightarrow>
                          ID e \<notin> rID ` set (Items (buildChannel fl (loadSite d) entries))))))"
proof -
  obtain u fe entries st where
    p: "pollProviders lib (polls env) feedProviders (False, None, loadEntries d, loadState d)
          = (u, fe, entries, st)"
    by (metis prod_cases4)
  have "prefix es entries"
    using pollProviders_prefix [OF p] assms(3) by (simp add: loadEntries_def)
  with assms(4) have in_entries: "e \<in> set entries"
    by (auto simp: prefix_def)
  let ?ok = "\<lambda>x. parseTime (CreatedAt x) \<noteq> None"
  let ?xs = "filter ?ok (sortSlice fl createdAfter entries)"
  have items: "list_all2 (itemFor fl) (Items (buildChannel fl (loadSite d) entries)) ?xs"
    using feedItems_all2 [of fl "sortSlice fl createdAfter entries"]
    by (simp add: buildChannel_def Let_def)
  have notin: "e \<notin> set ?xs"
    using assms(1) by simp
  have perm: "mset ?xs = mset (filter ?ok entries)"
    if "sorts_by createdAfter entries (sortSlice fl createdAfter entries)"
    using that by (simp add: sorts_by_def)
  have noid: "ID e \<notin> rID ` set (Items (buildChannel fl (loadSite d) entries))"
    if s: "sorts_by createdAfter entries (sortSlice fl createdAfter entries)"
      and dist: "distinct (map ID entries)"
  proof
    assume "ID e \<in> rID ` set (Items (buildChannel fl (loadSite d) entries))"
    then have "ID e \<in> set (map rID (Items (buildChannel fl (loadSite d) entries)))"
      by simp
    then have "ID e \<in> set (map ID ?xs)"
      using items_ids [OF items] by simp
    then have "ID e \<in> ID ` set ?xs"
      by (simp only: set_map)
    then obtain x where idx: "ID e = ID x" and x: "x \<in> set ?xs"
      by (rule imageE)
    have "set (sortSlice fl createdAfter entries) = set entries"
      using s by (auto simp: sorts_by_def dest: mset_eq_setD)
    with x have xin: "x \<in> set entries"
      by auto
    have "inj_on ID (set entries)"
      using dist by (simp add: distinct_map)
    with xin in_entries idx have "x = e"
      by (auto dest: inj_onD)
    with x notin show False
      by simp
  qed
  have kept: "\<exists>es'. entries_file (disk_after (RunFeedUpdate lib fl env d)) = Some es' \<and> e \<in> set es'"
    using assms(2,3,4,5) p in_entries
    by (cases "write_entries env"; cases "write_state env")
      (auto simp: RunFeedUpdate_def writeJSON_def buildFeed_def Let_def
        split: feed_write.splits)
  have listed: "stdout (RunFeedUpdate lib fl env d) = [''update detected''] \<Longrightarrow>
      entries_file (disk_after (RunFeedUpdate lib fl env d)) = Some entries
      \<and> feed_file (disk_after (RunFeedUpdate lib fl env d)) = Some (buildChannel fl (loadSite d) entries)"
    using assms(2) p
    by (cases "write_entries env"; cases "write_state env"; cases "write_feed env")
      (auto simp: RunFeedUpdate_def writeJSON_def buildFeed_def Let_def split: if_splits)
  show ?thesis
    using kept listed items notin in_entries perm noid by blast
qed

theorem unparsable_entry_kept_not_listed_witness:
  "parseTime (CreatedAt bad_entry) = None
   \<and> stdout (RunFeedUpdate test_lib test_feedlib env_new_release disk_bad_entry)
       = [''update detected'']
   \<and> entries_file (disk_after (RunFeedUpdate test_lib test_feedlib env_new_release
         disk_bad_entry)) = Some [bad_entry, release_entry]
   \<and> Items (the (feed_file (disk_after (RunFeedUpdate test_lib test_feedlib env_new_release
        disk_bad_entry))))
     = [toRssItem test_feedlib release_entry (1712077200, 0)]
   \<and> filter (\<lambda>x. parseTime (CreatedAt x) \<noteq> None)
        (sortSlice test_feedlib createdAfter [bad_entry, release_entry]) = [release_entry]
   \<and> ID bad_entry \<notin> rID ` set (Items (buildChannel test_feedlib (loadSite disk_bad_entry)
                                        [bad_entry, release_entry]))"
proof -
  let ?R = "RunFeedUpdate test_lib test_feedlib env_new_release disk_bad_entry"
  have h1: "parseTime (CreatedAt bad_entry) = None"
    by (simp add: bad_entry_def parse_yesterday)
  have h2: "getwd env_new_release = Inr ''/srv/feed''"
    by (simp add: env_new_release_def)
  have h3: "entries_file disk_bad_entry = Some [bad_entry]"
    by (simp add: disk_bad_entry_def)
  have h4: "bad_entry \<in> set [bad_entry]"
    by simp
  have h5: "write_entries env_new_release \<noteq> EncodeFails"
    by (simp add: env_new_release_def)
  have so: "stdout ?R = [''update detected'']"
    by (simp add: run_bad_entry)
  have e: "entries_file (disk_after ?R) = Some [bad_entry, release_entry]"
    by (simp add: run_bad_entry)
  have i: "Items (the (feed_file (disk_after ?R)))
           = [toRssItem test_feedlib release_entry (1712077200, 0)]"
    by (simp add: run_bad_entry channel_bad_release)
  have s: "sorts_by createdAfter [bad_entry, release_entry]
             (sortSlice test_feedlib createdAfter [bad_entry, release_entry])"
    using insertion_sort_sorts [of "[bad_entry, release_entry]"] by (simp add: test_feedlib_def)
  have dist: "distinct (map ID [bad_entry, release_entry])"
    by (simp add: bad_entry_def release_entry_def)
  have f: "filter (\<lambda>x. parseTime (CreatedAt x) \<noteq> None)
        (sortSlice test_feedlib createdAfter [bad_entry, release_entry]) = [release_entry]"
    using sort_bad_release h1
    by (simp add: test_feedlib_def) (simp add: release_entry_def parse_release_time)
  from unparsable_entry_kept_not_listed [OF h1 h2 h3 h4 h5, of test_lib test_feedlib] so e s dist
  have "ID bad_entry \<notin> rID ` set (Items (buildChannel test_feedlib (loadSite disk_bad_entry)
                                        [bad_entry, release_entry]))"
    by auto
  with h1 so e i f show ?thesis
    by blast
qed

text \<open>
  Claim C7 fails on the code. The entry list holds an entry whose timestamp \<open>yesterday\<close>
  does not parse and an entry with the timestamp \<open>2024-04-02T17:00:00Z\<close>. The first sorts
  before the second (\<open>y\<close> is greater than \<open>2\<close>), \<open>buildFeed\<close> reads the last-build time
  from the first sorted entry only, and the document lists the second entry's item
  without a last-build timestamp.
\<close>

theorem lastBuildDate_omitted_though_item_listed:
  "LastBuildDate (buildChannel test_feedlib defaultSite [bad_entry, release_entry]) = []
   \<and> map rID (Items (buildChannel test_feedlib defaultSite [bad_entry, release_entry]))
       = [ID release_entry]
   \<and> parseTime (CreatedAt release_entry) = Some (1712077200, 0)
   \<and> parseTime (CreatedAt bad_entry) = None"
  by (simp add: channel_bad_release toRssItem_def)
    (simp add: release_entry_def bad_entry_def parse_release_time parse_yesterday)

section \<open>The document: order of the items\<close>

lemma normalized_fixtures:
  "normalized_ts ''2024-04-02T17:00:00Z''" "normalized_ts ''2024-03-05T09:30:00Z''"
  "normalized_ts ''2023-11-07T18:00:00Z''"
  by (simp_all add: normalized_ts_def isDigit_iff)

lemma trim_fixtures2:
  "TrimSpace ''2024-03-05T09:30:00Z'' = ''2024-03-05T09:30:00Z''"
  "TrimSpace ''2023-11-07T18:00:00Z'' = ''2023-11-07T18:00:00Z''"
  "TrimSpace ''2024-04-02T17:00:00Z'' = ''2024-04-02T17:00:00Z''"
  by code_simp+

lemma parse_fixtures:
  "parseTime ''2024-04-02T17:00:00Z'' = Some (1712077200, 0)"
  "parseTime ''2024-03-05T09:30:00Z'' = Some (1709631000, 0)"
  "parseTime ''2023-11-07T18:00:00Z'' = Some (1699380000, 0)"
  by (simp_all add: parseTime_def trim_fixtures2 parse_defs)

lemma sort_three:
  "sortSlice test_feedlib createdAfter [march_entry, november_entry, release_entry]
     = [release_entry, march_entry, november_entry]"
  by (simp add: test_feedlib_def createdAfter_def)
    (simp add: march_entry_def november_entry_def release_entry_def)

lemma channel_three:
  "Items (buildChannel test_feedlib defaultSite [march_entry, november_entry, release_entry])
     = [toRssItem test_feedlib release_entry (1712077200, 0),
        toRssItem test_feedlib march_entry (1709631000, 0),
        toRssItem test_feedlib november_entry (1699380000, 0)]"
proof -
  have p: "parseTime (CreatedAt release_entry) = Some (1712077200, 0)"
    "parseTime (CreatedAt march_entry) = Some (1709631000, 0)"
    "parseTime (CreatedAt november_entry) = Some (1699380000, 0)"
    by (simp_all add: release_entry_def march_entry_def november_entry_def parse_fixtures)
  show ?thesis
    unfolding buildChannel_def sort_three by (simp add: p)
qed


text \<open>
  Claim C6, as amended. Every creation timestamp of the entry list is in the normalized
  form and parses, and \<open>sort.Slice\<close> has sorted (which is all that is assumed of it). Then
  the items of the document are built, one for one and in this order, from a rearrangement
  \<open>es\<close> of the entry list in which no entry is earlier than a following one; when the
  timestamps are pairwise distinct, every entry is strictly later than the following ones:
  timestamps t1 < t2 < t3 are listed t3, t2, t1.
\<close>

theorem feed_items_descending:
  assumes "\<forall>e\<in>set entries. normalized_ts (CreatedAt e) \<and> parseTime (CreatedAt e) \<noteq> None"
    and "sorts_by createdAfter entries (sortSlice fl createdAfter entries)"
  shows "\<exists>es. mset es = mset entries
           \<and> list_all2 (itemFor fl) (Items (buildChannel fl site entries)) es
           \<and> sorted_wrt notBefore es
           \<and> (distinct (map CreatedAt entries) \<longrightarrow> sorted_wrt strictlyAfter es)"
proof -
  let ?es = "sortSlice fl createdAfter entries"
  have m: "mset ?es = mset entries"
    and s: "sorted_wrt (\<lambda>a b. \<not> createdAfter b a) ?es"
    using assms(2) by (simp_all add: sorts_by_def)
  have set_eq: "set ?es = set entries"
    using m by (rule mset_eq_setD)
  have ok: "\<And>x. x \<in> set ?es \<Longrightarrow> normalized_ts (CreatedAt x) \<and> parseTime (CreatedAt x) \<noteq> None"
    using assms(1) set_eq by blast
  have "filter (\<lambda>x. parseTime (CreatedAt x) \<noteq> None) ?es = ?es"
    using ok by (simp add: filter_id_conv)
  with feedItems_all2 [of fl ?es]
  have items: "list_all2 (itemFor fl) (Items (buildChannel fl site entries)) ?es"
    by (simp add: buildChannel_def Let_def)
  have step: "notBefore a b \<and> (CreatedAt a \<noteq> CreatedAt b \<longrightarrow> strictlyAfter a b)"
    if a: "a \<in> set ?es" and b: "b \<in> set ?es" and le: "\<not> createdAfter b a" for a b
  proof -
    obtain ta tb where ta: "parseTime (CreatedAt a) = Some ta"
      and tb: "parseTime (CreatedAt b) = Some tb"
      using ok [OF a] ok [OF b] by blast
    show ?thesis
    proof (cases "CreatedAt a = CreatedAt b")
      case True
      with ta tb show ?thesis
        by (simp add: notBefore_def)
    next
      case False
      with le have "CreatedAt b < CreatedAt a"
        by (simp add: createdAfter_def)
      with normalized_less_instant [of "CreatedAt b" "CreatedAt a" tb ta] ok [OF a] ok [OF b] ta tb
      have "fst tb < fst ta"
        by blast
      with ta tb show ?thesis
        by (simp add: notBefore_def strictlyAfter_def)
    qed
  qed
  have nb: "sorted_wrt notBefore ?es"
    using s by (rule sorted_wrt_mono_rel [rotated]) (use step in blast)
  have sa: "sorted_wrt strictlyAfter ?es" if d: "distinct (map CreatedAt entries)"
  proof -
    have "mset (map CreatedAt ?es) = mset (map CreatedAt entries)"
      using m by simp
    with d have "distinct (map CreatedAt ?es)"
      using mset_eq_imp_distinct_iff by blast
    from sorted_wrt_distinct [OF s this]
    show ?thesis
      by (rule sorted_wrt_mono_rel [rotated]) (use step in blast)
  qed
  from m items nb sa show ?thesis
    by blast
qed

theorem feed_items_descending_witness:
  "map rPubDate (Items (buildChannel test_feedlib defaultSite
       [march_entry, november_entry, release_entry]))
     = [''Tue, 02 Apr 2024 17:00:00 +0000'', ''Tue, 05 Mar 2024 09:30:00 +0000'',
        ''Tue, 07 Nov 2023 18:00:00 +0000'']
   \<and> (\<exists>es. mset es = mset [march_entry, november_entry, release_entry]
          \<and> list_all2 (itemFor test_feedlib)
                (Items (buildChannel test_feedlib defaultSite
                   [march_entry, november_entry, release_entry])) es
          \<and> sorted_wrt notBefore es \<and> sorted_wrt strictlyAfter es)"
proof -
  have h1: "\<forall>e\<in>set [march_entry, november_entry, release_entry].
              normalized_ts (CreatedAt e) \<and> parseTime (CreatedAt e) \<noteq> None"
    by (simp add: release_entry_def march_entry_def november_entry_def parse_fixtures
        normalized_fixtures)
  have h2: "sorts_by createdAfter [march_entry, november_entry, release_entry]
              (sortSlice test_feedlib createdAfter [march_entry, november_entry, release_entry])"
    using insertion_sort_sorts [of "[march_entry, november_entry, release_entry]"]
    by (simp add: test_feedlib_def)
  have d: "distinct (map CreatedAt [march_entry, november_entry, release_entry])"
    by (simp add: release_entry_def march_entry_def november_entry_def)
  have "map rPubDate (Items (buildChannel test_feedlib defaultSite
       [march_entry, november_entry, release_entry]))
     = [''Tue, 02 Apr 2024 17:00:00 +0000'', ''Tue, 05 Mar 2024 09:30:00 +0000'',
        ''Tue, 07 Nov 2023 18:00:00 +0000'']"
    by (simp add: channel_three) (simp add: toRssItem_def test_feedlib_def)
  with feed_items_descending [OF h1 h2, of defaultSite] d show ?thesis
    by blast
qed


text \<open>
  Claim C6 as stated fails: two entries carry the same normalized timestamp (two
  providers published in the same second), both are listed, and neither order of the two
  is strictly descending.
\<close>

lemma sort_twins:
  "sortSlice test_feedlib createdAfter [release_entry, twin_entry] = [release_entry, twin_entry]"
  by (simp add: test_feedlib_def createdAfter_def)
    (simp add: twin_entry_def release_entry_def)

theorem equal_timestamps_counterexample:
  "normalized_ts (CreatedAt release_entry) \<and> normalized_ts (CreatedAt twin_entry)
   \<and> parseTime (CreatedAt release_entry) = Some (1712077200, 0)
   \<and> parseTime (CreatedAt twin_entry) = Some (1712077200, 0)
   \<and> Items (buildChannel test_feedlib defaultSite [release_entry, twin_entry])
       = [toRssItem test_feedlib release_entry (1712077200, 0),
          toRssItem test_feedlib twin_entry (1712077200, 0)]
   \<and> \<not> sorted_wrt strictlyAfter [release_entry, twin_entry]
   \<and> \<not> sorted_wrt strictlyAfter [twin_entry, release_entry]"
proof -
  have p: "parseTime (CreatedAt release_entry) = Some (1712077200, 0)"
    "parseTime (CreatedAt twin_entry) = Some (1712077200, 0)"
    by (simp_all add: release_entry_def twin_entry_def parse_fixtures)
  have n: "normalized_ts (CreatedAt release_entry)" "normalized_ts (CreatedAt twin_entry)"
    by (simp_all add: release_entry_def twin_entry_def normalized_fixtures)
  have i: "Items (buildChannel test_feedlib defaultSite [release_entry, twin_entry])
       = [toRssItem test_feedlib release_entry (1712077200, 0),
          toRssItem test_feedlib twin_entry (1712077200, 0)]"
    unfolding buildChannel_def sort_twins by (simp add: p)
  show ?thesis
    using p n i by (simp add: strictlyAfter_def)
qed

section \<open>Package feed: content selection and media markup\<close>

lemma compile_iframe: "MustCompile iframePattern_src = Inr (Regexp iframePattern_src)"
  by (simp add: MustCompile_def regexp_Compile_def iframePattern_src_def backslash_def)

lemma compile_width:
  "MustCompile iframeWidthPattern_src
     = Inl (Panic (Error (''error parsing regexp: invalid escape sequence: `'' @ [backslash] @ ''1`'')))"
  by (simp add: MustCompile_def regexp_Compile_def iframeWidthPattern_src_def backslash_def)

text \<open>
  Claim C9 fails on the code. The patterns for the width and the height attribute end in
  a backreference (backslash, 1), which \<open>regexp.MustCompile\<close> rejects: the initialisation of
  package feed panics, and no call of \<open>extractFirstIframe\<close> returns anything, neither for
  the content with the iframe of the claim nor for content without an iframe.
\<close>

theorem feed_init_panics:
  "run_extractFirstIframe rl ''<iframe src=\"x\" width=\"320\" height=\"180\" allow=\"y\"></iframe>''
     = Inl (Panic (Error (''error parsing regexp: invalid escape sequence: `'' @ [backslash] @ ''1`'')))
   \<and> run_extractFirstIframe rl ''<p>no frame here</p>''
     = Inl (Panic (Error (''error parsing regexp: invalid escape sequence: `'' @ [backslash] @ ''1`'')))"
  by (simp add: run_extractFirstIframe_def feed_init_def compile_iframe compile_width)

lemma trim_com:
  "TrimSpace (wcContentEncoded com_feed_item) = ''<p>The full body</p>''"
  by code_simp

text \<open>
  Claim C10 fails on the code. The feed's first item has a description and a non-blank
  encoded body; \<open>pickEncodedOrDescription\<close> would select the body, but
  \<open>LatestWordPressComBlog\<close> does not call it and returns the description as the content.
\<close>

theorem wordpress_com_ignores_encoded_body:
  "LatestWordPressComBlog (\<lambda>url source. Inr ''<rss>...</rss>'') (\<lambda>body. Inr [com_feed_item])
     = Inr \<lparr>iTitle = ''A new post'', iLink = ''https://wordpress.com/blog/2024/04/02/a-new-post/'',
            iGUID = ''https://wordpress.com/blog/?p=1'',
            iPubDate = ''Tue, 02 Apr 2024 17:00:00 +0000'',
            iDescription = ''Short summary'', iCategories = []\<rparr>
   \<and> pickEncodedOrDescription (wcContentEncoded com_feed_item) (wcDescription com_feed_item)
     = ''<p>The full body</p>''"
  by (simp add: LatestWordPressComBlog_def pickEncodedOrDescription_def trim_com)
    (simp add: com_feed_item_def)

end
